theory Spec2Isabelle
  imports Main "HOL-Library.Sublist"
begin

section \<open>The application entry point \<open>src/main.ts\<close>\<close>

text \<open>
  \<open>main.ts\<close> is a composition root: it calls the lifecycle methods of collaborators whose
  code lives in other modules. The collaborators are therefore parameters of the model: an
  environment gives, for every external call and every state of the collaborators, the
  result of the call (a return value or a thrown error) and the state it leaves behind. The
  state is an arbitrary type \<open>'s\<close>; it holds, for example, whether the leak detector is
  running. Every run of a piece of the module yields a completion, the world it leaves and
  the list of events (external calls with their results, console output, assignments) in
  the order in which they happened.
\<close>

subsection \<open>Values, errors and results\<close>

text \<open>A thrown JavaScript value: a \<open>TypeError\<close> raised by the language itself, or any
  value thrown by a collaborator.\<close>

datatype js_error = TypeError string | Thrown string

text \<open>The values the module handles: \<open>undefined\<close>; a function of a collaborator; an
  object of a collaborator with its members (a class with its static methods, an instance
  with its methods, a module namespace with its exports, the application with its
  \<open>config\<close>); the object literal of line 77; the object \<open>performanceTools\<close> of line 153;
  a promise with the way it settles; and any other value that is not an object (\<open>Other n\<close>).
  A promise fulfils with a value, rejects with a reason, or never settles.\<close>

datatype js_val =
    Undefined
  | Function
  | Object "(string \<times> js_val) list"
  | DebugMemory_object
  | PerformanceTools_object
  | Promise settlement
  | Other nat
and settlement = Fulfils js_val | Rejects js_error | Pending

datatype ext_result = Returns js_val | Throws js_error

text \<open>The two module specifiers loaded with \<open>import()\<close> (lines 41 and 58).\<close>

datatype module_spec = Websocket_service | Memory_optimization

text \<open>The plugins passed to \<open>app.use\<close> (lines 23 and 26).\<close>

datatype plugin = Router | I18n

text \<open>Every call on a collaborator that the module makes, with its arguments. The last
  one is the \<open>catch\<close> method of what \<open>preloadComponent\<close> returned, when that is not a
  promise but some other object with a callable member \<open>catch\<close> (line 95).\<close>

datatype ext_call =
    CreateApp
  | UsePinia
  | App_use plugin
  | StoreManager_initialize
  | MemoryLeakDetector_startMonitoring nat
  | MemoryLeakDetector_stopMonitoring
  | MemoryLeakDetector_forceCheck
  | MemoryLeakDetector_getMemoryStats
  | WebSocketCleaner_cleanupAll
  | StoreCleaner_cleanupAll
  | WebSocketService_destroyInstance
  | MemoryOptimizer_getInstance
  | MemoryOptimizer_cleanup
  | MemoryMonitor_startMonitoring nat
  | MemoryMonitor_stopMonitoring
  | ComponentPreloader_preloadComponent string
  | ComponentPreloader_destroy
  | EventListenerManager_cleanup
  | CodeSplittingManager_cleanup
  | BundleAnalyzer_printReport
  | App_mount string
  | Preloaded_catch

text \<open>The console messages of the module, one constructor for each string literal (the
  comment gives the line). The four metric messages carry the number that the template
  string formats with \<open>toFixed(2)\<close>.\<close>

datatype 'n message =
    Msg_app_closing                \<comment> \<open>line 37\<close>
  | Msg_dev_tools_enabled          \<comment> \<open>line 89\<close>
  | Msg_tools_status               \<comment> \<open>line 98\<close>
  | Msg_status_leak_detection      \<comment> \<open>line 99\<close>
  | Msg_status_memory_monitor      \<comment> \<open>line 100\<close>
  | Msg_status_preloader           \<comment> \<open>line 101\<close>
  | Msg_status_bundle_analyzer     \<comment> \<open>line 102\<close>
  | Msg_status_code_splitting      \<comment> \<open>line 103\<close>
  | Msg_status_event_listeners     \<comment> \<open>line 104\<close>
  | Msg_performance_metrics        \<comment> \<open>line 118\<close>
  | Msg_DOMContentLoaded 'n        \<comment> \<open>line 119\<close>
  | Msg_Load_Complete 'n           \<comment> \<open>line 120\<close>
  | Msg_DNS_Lookup 'n              \<comment> \<open>line 122\<close>
  | Msg_TCP_Connect 'n             \<comment> \<open>line 125\<close>
  | Msg_perf_tools_mounted         \<comment> \<open>line 167\<close>

text \<open>The labels that precede the error in \<open>console.error\<close> (lines 44 and 61).\<close>

datatype error_label = WebSocketService_cleanup_failed | MemoryOptimizer_cleanup_failed

text \<open>What a run does, in order. \<open>Console_error None e\<close> is \<open>console.error(e)\<close> with
  no label, as the callback of line 95 calls it. \<open>Type_error name\<close> is a \<open>TypeError\<close>
  that the language raises at the member or property \<open>name\<close>: a call of a member that is
  not a function, an assignment that is refused.\<close>

datatype 'n event =
    Call ext_call ext_result
  | Import module_spec settlement
  | Type_error string
  | Console_log "'n message"
  | Console_error "error_label option" js_error
  | Performance_getEntriesByType string
  | AddEventListener string
  | Assign_window string
  | Object_defineProperty string
  | Assign_errorHandler
  | Assign_globalProperties_performance

subsection \<open>Properties of the \<open>window\<close> object\<close>

text \<open>An own property of an object is a data property (value, writable, enumerable,
  configurable) or an accessor property (getter, setter, enumerable, configurable).\<close>

datatype property =
    Data js_val bool bool bool
  | Accessor js_val js_val bool bool

text \<open>A property descriptor as \<open>Object.defineProperty\<close> receives it: every field may be
  absent.\<close>

record descriptor =
  d_value :: "js_val option"
  d_writable :: "bool option"
  d_get :: "js_val option"
  d_set :: "js_val option"
  d_enumerable :: "bool option"
  d_configurable :: "bool option"

type_synonym js_object = "string \<Rightarrow> property option"

text \<open>The closures that the module creates: the arrow functions of lines 78 to 83 (the
  members of the object assigned to \<open>window.debugMemory\<close>), the listener of line 36 and
  the callback of line 95; and the tools that \<open>performanceTools\<close> refers to.\<close>

datatype closure = CheckMemory_closure | GetStats_closure | CleanupAll_closure

datatype listener = Unload_cleanup bool

datatype reaction = Console_error_callback

datatype tool = MemoryMonitor | BundleAnalyzer | CodeSplittingManager | ComponentPreloader
  | EventListenerManager

subsection \<open>Defining, assigning and deleting properties\<close>

text \<open>The language's own operations on the properties of an ordinary extensible object,
  as far as the module and the claims about \<open>window\<close> need them: \<open>[[DefineOwnProperty]]\<close>
  (\<open>Object.defineProperty\<close>), \<open>[[Set]]\<close> on the object itself (an assignment) and
  \<open>[[Delete]]\<close>. Inherited properties are not modelled, and the effects of calling a setter
  are left out: the object is returned as it is.\<close>

definition is_accessor_descriptor :: "descriptor \<Rightarrow> bool" where
  "is_accessor_descriptor d = (d_get d \<noteq> None \<or> d_set d \<noteq> None)"

definition is_data_descriptor :: "descriptor \<Rightarrow> bool" where
  "is_data_descriptor d = (d_value d \<noteq> None \<or> d_writable d \<noteq> None)"

definition or_else :: "'a option \<Rightarrow> 'a \<Rightarrow> 'a" where
  "or_else x d = (case x of None \<Rightarrow> d | Some v \<Rightarrow> v)"

text \<open>A property created from a descriptor: an absent field takes its default
  (\<open>undefined\<close> or \<open>false\<close>).\<close>

definition new_property :: "descriptor \<Rightarrow> property" where
  "new_property d =
     (if is_accessor_descriptor d
      then Accessor (or_else (d_get d) Undefined) (or_else (d_set d) Undefined)
             (or_else (d_enumerable d) False) (or_else (d_configurable d) False)
      else Data (or_else (d_value d) Undefined) (or_else (d_writable d) False)
             (or_else (d_enumerable d) False) (or_else (d_configurable d) False))"

text \<open>Whether a descriptor may be applied to an existing property: anything goes on a
  configurable property; on a non-configurable one the descriptor must not make it
  configurable, change its enumerability, change its kind, or (when it is not writable) make
  it writable or change its value.\<close>

fun validate :: "property \<Rightarrow> descriptor \<Rightarrow> bool" where
  "validate (Data v wr en cf) d =
     (cf \<or>
      (d_configurable d \<noteq> Some True \<and>
       (d_enumerable d = None \<or> d_enumerable d = Some en) \<and>
       \<not> is_accessor_descriptor d \<and>
       (wr \<or> (d_writable d \<noteq> Some True \<and> (d_value d = None \<or> d_value d = Some v)))))"
| "validate (Accessor g s en cf) d =
     (cf \<or>
      (d_configurable d \<noteq> Some True \<and>
       (d_enumerable d = None \<or> d_enumerable d = Some en) \<and>
       \<not> is_data_descriptor d \<and>
       (d_get d = None \<or> d_get d = Some g) \<and>
       (d_set d = None \<or> d_set d = Some s)))"

fun apply_descriptor :: "property \<Rightarrow> descriptor \<Rightarrow> property" where
  "apply_descriptor (Data v wr en cf) d =
     (if is_accessor_descriptor d
      then Accessor (or_else (d_get d) Undefined) (or_else (d_set d) Undefined)
             (or_else (d_enumerable d) en) (or_else (d_configurable d) cf)
      else Data (or_else (d_value d) v) (or_else (d_writable d) wr)
             (or_else (d_enumerable d) en) (or_else (d_configurable d) cf))"
| "apply_descriptor (Accessor g s en cf) d =
     (if is_data_descriptor d
      then Data (or_else (d_value d) Undefined) (or_else (d_writable d) False)
             (or_else (d_enumerable d) en) (or_else (d_configurable d) cf)
      else Accessor (or_else (d_get d) g) (or_else (d_set d) s)
             (or_else (d_enumerable d) en) (or_else (d_configurable d) cf))"

text \<open>\<open>Object.defineProperty(obj, name, d)\<close> throws a \<open>TypeError\<close> when the descriptor
  mixes accessor and data fields or when it may not be applied.\<close>

definition define_property :: "js_object \<Rightarrow> string \<Rightarrow> descriptor \<Rightarrow> js_error + js_object" where
  "define_property obj name d =
     (if is_accessor_descriptor d \<and> is_data_descriptor d
      then Inl (TypeError ''Invalid property descriptor'')
      else (case obj name of
              None \<Rightarrow> Inr (obj(name \<mapsto> new_property d))
            | Some p \<Rightarrow>
                if validate p d then Inr (obj(name \<mapsto> apply_descriptor p d))
                else Inl (TypeError ''Cannot redefine property'')))"

text \<open>\<open>obj.name = v\<close> in strict code (a module is strict code): a missing property is
  created writable, enumerable and configurable; a read-only property and an accessor
  without a setter throw a \<open>TypeError\<close>.\<close>

definition set_property :: "js_object \<Rightarrow> string \<Rightarrow> js_val \<Rightarrow> js_error + js_object" where
  "set_property obj name v =
     (case obj name of
        None \<Rightarrow> Inr (obj(name \<mapsto> Data v True True True))
      | Some (Data old wr en cf) \<Rightarrow>
          if wr then Inr (obj(name \<mapsto> Data v wr en cf))
          else Inl (TypeError ''Cannot assign to read only property'')
      | Some (Accessor g s en cf) \<Rightarrow>
          if s = Undefined then Inl (TypeError ''Cannot set property which has only a getter'')
          else Inr obj)"

fun configurable :: "property \<Rightarrow> bool" where
  "configurable (Data v wr en cf) = cf"
| "configurable (Accessor g s en cf) = cf"

definition delete_property :: "js_object \<Rightarrow> string \<Rightarrow> js_error + js_object" where
  "delete_property obj name =
     (case obj name of
        None \<Rightarrow> Inr obj
      | Some p \<Rightarrow>
          if configurable p then Inr (obj(name := None))
          else Inl (TypeError ''Cannot delete property''))"

text \<open>An attempt to change the object from anywhere: an assignment, a (re)definition or a
  deletion. A failed attempt throws in strict code and is ignored in sloppy code; the object
  is the same in both cases.\<close>

datatype attempt =
    Assign string js_val
  | DefineProperty string descriptor
  | Delete string

fun after_attempt :: "js_object \<Rightarrow> attempt \<Rightarrow> js_object" where
  "after_attempt obj (Assign name v) =
     (case set_property obj name v of Inl e \<Rightarrow> obj | Inr obj' \<Rightarrow> obj')"
| "after_attempt obj (DefineProperty name d) =
     (case define_property obj name d of Inl e \<Rightarrow> obj | Inr obj' \<Rightarrow> obj')"
| "after_attempt obj (Delete name) =
     (case delete_property obj name of Inl e \<Rightarrow> obj | Inr obj' \<Rightarrow> obj')"

definition after_attempts :: "js_object \<Rightarrow> attempt list \<Rightarrow> js_object" where
  "after_attempts obj as = foldl after_attempt obj as"

text \<open>The value that reading \<open>obj.name\<close> gives for a data property; a missing property
  reads as \<open>undefined\<close>.\<close>

definition get_property :: "js_object \<Rightarrow> string \<Rightarrow> js_val" where
  "get_property obj name =
     (case obj name of
        Some (Data v wr en cf) \<Rightarrow> v
      | Some (Accessor g s en cf) \<Rightarrow> Undefined
      | None \<Rightarrow> Undefined)"

subsection \<open>The world and the environment\<close>

record 's world =
  ext_state :: 's
  window :: js_object
  listeners :: "(string \<times> listener) list"
  reactions :: "(settlement \<times> reaction) list"

record 'n navigation_timing =
  domContentLoadedEventEnd :: 'n
  domContentLoadedEventStart :: 'n
  loadEventEnd :: 'n
  loadEventStart :: 'n
  domainLookupEnd :: 'n
  domainLookupStart :: 'n
  connectEnd :: 'n
  connectStart :: 'n

record ('s, 'n) environment =
  ext :: "ext_call \<Rightarrow> 's \<Rightarrow> ext_result \<times> 's"
  dyn_import :: "module_spec \<Rightarrow> 's \<Rightarrow> settlement \<times> 's"
  navigation_entries :: "'n navigation_timing list"


subsection \<open>Statements\<close>

text \<open>A statement completes normally with a value, completes abruptly with a thrown
  error, or is suspended for ever at an \<open>await\<close> whose promise never settles.\<close>

datatype completion = Normal js_val | Abrupt js_error | Suspended

type_synonym ('s, 'n) js = "'s world \<Rightarrow> completion \<times> 's world \<times> 'n event list"

definition completion_of :: "completion \<times> 's world \<times> 'n event list \<Rightarrow> completion" where
  "completion_of r = fst r"

definition world_of :: "completion \<times> 's world \<times> 'n event list \<Rightarrow> 's world" where
  "world_of r = fst (snd r)"

definition events_of :: "completion \<times> 's world \<times> 'n event list \<Rightarrow> 'n event list" where
  "events_of r = snd (snd r)"

definition emit :: "'n event \<Rightarrow> ('s, 'n) js" where
  "emit ev w = (Normal Undefined, w, [ev])"

definition console_log :: "'n message \<Rightarrow> ('s, 'n) js" where
  "console_log m = emit (Console_log m)"

definition console_error :: "error_label option \<Rightarrow> js_error \<Rightarrow> ('s, 'n) js" where
  "console_error l e = emit (Console_error l e)"

text \<open>The language raises a \<open>TypeError\<close> at the member or property \<open>name\<close>.\<close>

definition type_error :: "string \<Rightarrow> ('s, 'n) js" where
  "type_error name w = (Abrupt (TypeError name), w, [Type_error name])"

text \<open>A call on a collaborator: the environment decides the result and the next state.\<close>

definition call :: "('s, 'n) environment \<Rightarrow> ext_call \<Rightarrow> ('s, 'n) js" where
  "call c k w =
     (case ext c k (ext_state w) of
        (Returns v, s') \<Rightarrow> (Normal v, w\<lparr>ext_state := s'\<rparr>, [Call k (Returns v)])
      | (Throws e, s') \<Rightarrow> (Abrupt e, w\<lparr>ext_state := s'\<rparr>, [Call k (Throws e)]))"

text \<open>\<open>await import(m)\<close>: the statement goes on with the module namespace when the promise
  fulfils, throws the reason when it rejects, and never goes on when it never settles.\<close>

definition await_import :: "('s, 'n) environment \<Rightarrow> module_spec \<Rightarrow> ('s, 'n) js" where
  "await_import c m w =
     (case dyn_import c m (ext_state w) of
        (Fulfils ns, s') \<Rightarrow> (Normal ns, w\<lparr>ext_state := s'\<rparr>, [Import m (Fulfils ns)])
      | (Rejects e, s') \<Rightarrow> (Abrupt e, w\<lparr>ext_state := s'\<rparr>, [Import m (Rejects e)])
      | (Pending, s') \<Rightarrow> (Suspended, w\<lparr>ext_state := s'\<rparr>, [Import m Pending]))"

text \<open>The events of an earlier part come before those of a later part.\<close>

fun prepend ::
  "'n event list \<Rightarrow> completion \<times> 's world \<times> 'n event list \<Rightarrow> completion \<times> 's world \<times> 'n event list"
where
  "prepend t (r, w, t') = (r, w, t @ t')"

text \<open>Sequencing: the second part runs only when the first completes normally.\<close>

fun continue_with ::
  "completion \<times> 's world \<times> 'n event list \<Rightarrow> (js_val \<Rightarrow> ('s, 'n) js) \<Rightarrow>
     completion \<times> 's world \<times> 'n event list"
where
  "continue_with (Normal v, w1, t1) f = prepend t1 (f v w1)"
| "continue_with (Abrupt e, w1, t1) f = (Abrupt e, w1, t1)"
| "continue_with (Suspended, w1, t1) f = (Suspended, w1, t1)"

definition bind :: "('s, 'n) js \<Rightarrow> (js_val \<Rightarrow> ('s, 'n) js) \<Rightarrow> ('s, 'n) js" where
  "bind m f w = continue_with (m w) f"

fun block :: "('s, 'n) js list \<Rightarrow> ('s, 'n) js" where
  "block [] w = (Normal Undefined, w, [])"
| "block (st # sts) w = bind st (\<lambda>_. block sts) w"

text \<open>\<open>try { body } catch (error) { handler }\<close>: the handler runs only when the body
  throws; a body suspended at an \<open>await\<close> stays suspended.\<close>

fun recover ::
  "completion \<times> 's world \<times> 'n event list \<Rightarrow> (js_error \<Rightarrow> ('s, 'n) js) \<Rightarrow>
     completion \<times> 's world \<times> 'n event list"
where
  "recover (Abrupt e, w1, t1) h = prepend t1 (h e w1)"
| "recover (Normal v, w1, t1) h = (Normal v, w1, t1)"
| "recover (Suspended, w1, t1) h = (Suspended, w1, t1)"

definition try_catch :: "('s, 'n) js \<Rightarrow> (js_error \<Rightarrow> ('s, 'n) js) \<Rightarrow> ('s, 'n) js" where
  "try_catch body handler w = recover (body w) handler"

definition if_then :: "bool \<Rightarrow> ('s, 'n) js \<Rightarrow> ('s, 'n) js" where
  "if_then b st w = (if b then st w else (Normal Undefined, w, []))"

subsection \<open>Members of objects\<close>

text \<open>The object assigned to \<open>window.debugMemory\<close> (lines 77 to 84): its members, and what
  a call of each of them does.\<close>

definition debugMemory_members :: "(string \<times> closure) list" where
  "debugMemory_members =
     [(''checkMemory'', CheckMemory_closure),
      (''getStats'', GetStats_closure),
      (''cleanupAll'', CleanupAll_closure)]"

fun invoke :: "('s, 'n) environment \<Rightarrow> closure \<Rightarrow> ('s, 'n) js" where
  "invoke c CheckMemory_closure = call c MemoryLeakDetector_forceCheck"
| "invoke c GetStats_closure = call c MemoryLeakDetector_getMemoryStats"
| "invoke c CleanupAll_closure =
     block [call c WebSocketCleaner_cleanupAll, call c StoreCleaner_cleanupAll]"

text \<open>\<open>v.name\<close>, for the members that the module reads from a value it was given
  (\<open>WebSocketService\<close> and \<open>MemoryOptimizer\<close> of a module namespace, \<open>config\<close> of the
  application and \<open>globalProperties\<close> of the configuration): an object of a collaborator
  has the member or not; no other value has a member of such a name. Every such read is
  followed at once by a call or an assignment on what was read, which is where the model
  raises the \<open>TypeError\<close> of a read from \<open>undefined\<close>.\<close>

fun member :: "js_val \<Rightarrow> string \<Rightarrow> js_val" where
  "member (Object ms) name = (case map_of ms name of None \<Rightarrow> Undefined | Some v \<Rightarrow> v)"
| "member v name = Undefined"

text \<open>\<open>v.name()\<close>: the call \<open>k\<close> on the collaborator when \<open>v\<close> is an object of a
  collaborator whose member \<open>name\<close> is a function; the closure when \<open>v\<close> is the object of
  line 77 and \<open>name\<close> one of its members; a \<open>TypeError\<close> otherwise, and then nothing is
  called.\<close>

definition method_call ::
  "('s, 'n) environment \<Rightarrow> js_val \<Rightarrow> string \<Rightarrow> ext_call \<Rightarrow> ('s, 'n) js" where
  "method_call c v name k w =
     (case v of
        Object ms \<Rightarrow>
          if map_of ms name = Some Function then call c k w else type_error name w
      | DebugMemory_object \<Rightarrow>
          (case map_of debugMemory_members name of
             Some cl \<Rightarrow> invoke c cl w
           | None \<Rightarrow> type_error name w)
      | _ \<Rightarrow> type_error name w)"

text \<open>\<open>target.name = ...\<close> in strict code, on a value the module was given: the
  assignment \<open>ev\<close> happens when the target is an object (the objects of the collaborators
  are taken to be ordinary extensible objects); on \<open>undefined\<close> and on a value that is not
  an object it throws a \<open>TypeError\<close>.\<close>

fun is_object :: "js_val \<Rightarrow> bool" where
  "is_object Undefined = False"
| "is_object (Other n) = False"
| "is_object v = True"

definition property_assign :: "js_val \<Rightarrow> string \<Rightarrow> 'n event \<Rightarrow> ('s, 'n) js" where
  "property_assign target name ev w =
     (if is_object target then emit ev w else type_error name w)"

subsection \<open>The \<open>beforeunload\<close> handler (lines 36 to 72)\<close>

text \<open>The handler is an \<open>async\<close> function: its completion is how the promise it returns
  settles (\<open>Normal\<close>: fulfilled, \<open>Abrupt e\<close>: rejected with \<open>e\<close>, \<open>Suspended\<close>: never).
  \<open>isDev\<close> is the constant of line 32, captured by the closure. Lines 41 and 58 take a
  class out of the namespace that the import gave; lines 42 and 59 call a static method of
  it, and line 59 calls \<open>cleanup\<close> on what \<open>getInstance\<close> returned.\<close>

definition unload_handler :: "('s, 'n) environment \<Rightarrow> bool \<Rightarrow> ('s, 'n) js" where
  "unload_handler c isDev =
     block [
       console_log Msg_app_closing,
       try_catch
         (bind (await_import c Websocket_service)
            (\<lambda>ns. method_call c (member ns ''WebSocketService'') ''destroyInstance''
                     WebSocketService_destroyInstance))
         (\<lambda>error. console_error (Some WebSocketService_cleanup_failed) error),
       call c MemoryLeakDetector_stopMonitoring,
       call c WebSocketCleaner_cleanupAll,
       call c StoreCleaner_cleanupAll,
       try_catch
         (bind (await_import c Memory_optimization)
            (\<lambda>ns. bind (method_call c (member ns ''MemoryOptimizer'') ''getInstance''
                           MemoryOptimizer_getInstance)
                     (\<lambda>instance. method_call c instance ''cleanup'' MemoryOptimizer_cleanup)))
         (\<lambda>error. console_error (Some MemoryOptimizer_cleanup_failed) error),
       if_then isDev
         (block [
            call c MemoryMonitor_stopMonitoring,
            call c ComponentPreloader_destroy,
            call c EventListenerManager_cleanup,
            call c CodeSplittingManager_cleanup,
            call c BundleAnalyzer_printReport])]"

subsection \<open>The module body (lines 17 to 168)\<close>

text \<open>\<open>window.addEventListener(name, l)\<close>.\<close>

definition add_event_listener :: "string \<Rightarrow> listener \<Rightarrow> ('s, 'n) js" where
  "add_event_listener name l w =
     (Normal Undefined, w\<lparr>listeners := listeners w @ [(name, l)]\<rparr>, [AddEventListener name])"

text \<open>What the platform runs when it fires the event on a listener.\<close>

fun run_listener :: "('s, 'n) environment \<Rightarrow> listener \<Rightarrow> ('s, 'n) js" where
  "run_listener c (Unload_cleanup isDev) = unload_handler c isDev"

text \<open>\<open>window.name = v\<close> and \<open>Object.defineProperty(window, name, d)\<close>; a refused one
  throws the \<open>TypeError\<close> and leaves \<open>window\<close> as it was.\<close>

definition window_assign :: "string \<Rightarrow> js_val \<Rightarrow> ('s, 'n) js" where
  "window_assign name v w =
     (case set_property (window w) name v of
        Inl e \<Rightarrow> (Abrupt e, w, [Assign_window name, Type_error name])
      | Inr obj \<Rightarrow> (Normal v, w\<lparr>window := obj\<rparr>, [Assign_window name]))"

definition object_defineProperty :: "string \<Rightarrow> descriptor \<Rightarrow> ('s, 'n) js" where
  "object_defineProperty name d w =
     (case define_property (window w) name d of
        Inl e \<Rightarrow> (Abrupt e, w, [Object_defineProperty name, Type_error name])
      | Inr obj \<Rightarrow> (Normal Undefined, w\<lparr>window := obj\<rparr>, [Object_defineProperty name]))"

text \<open>\<open>p.catch(r)\<close>: on a promise it registers the reaction and gives a new promise, which
  fulfils when \<open>p\<close> fulfils and also when \<open>p\<close> rejects (the reaction \<open>console.error\<close>
  returns \<open>undefined\<close>); on any other value it is a call of the member \<open>catch\<close>.\<close>

definition promise_catch ::
  "('s, 'n) environment \<Rightarrow> js_val \<Rightarrow> reaction \<Rightarrow> ('s, 'n) js" where
  "promise_catch c v r w =
     (case v of
        Promise p \<Rightarrow>
          (Normal (Promise (case p of
                      Rejects e \<Rightarrow> Fulfils Undefined
                    | Fulfils x \<Rightarrow> Fulfils x
                    | Pending \<Rightarrow> Pending)),
           w\<lparr>reactions := reactions w @ [(p, r)]\<rparr>, [])
      | _ \<Rightarrow> method_call c v ''catch'' Preloaded_catch w)"

text \<open>The reactions run after the synchronous code, when their promises have settled: a
  rejected promise calls its reaction with the reason.\<close>

fun run_reaction :: "settlement \<times> reaction \<Rightarrow> 'n event list" where
  "run_reaction (Rejects e, Console_error_callback) = [Console_error None e]"
| "run_reaction (Fulfils v, Console_error_callback) = []"
| "run_reaction (Pending, Console_error_callback) = []"

definition run_reactions :: "(settlement \<times> reaction) list \<Rightarrow> 'n event list" where
  "run_reactions rs = concat (map run_reaction rs)"

text \<open>The object \<open>performanceTools\<close> (lines 153 to 159).\<close>

definition performanceTools_members :: "(string \<times> tool) list" where
  "performanceTools_members =
     [(''memoryMonitor'', MemoryMonitor),
      (''bundleAnalyzer'', BundleAnalyzer),
      (''codeSplittingManager'', CodeSplittingManager),
      (''componentPreloader'', ComponentPreloader),
      (''eventListenerManager'', EventListenerManager)]"

text \<open>The performance measurement (lines 111 to 127). The timestamps are numbers of any
  type \<open>'n\<close> with a subtraction.\<close>

definition performance_report :: "('s, 'n::minus) environment \<Rightarrow> ('s, 'n) js" where
  "performance_report c w =
     (case navigation_entries c of
        [] \<Rightarrow> (Normal Undefined, w, [Performance_getEntriesByType ''navigation''])
      | navigationEntry # _ \<Rightarrow>
          (let domContentLoaded =
                 domContentLoadedEventEnd navigationEntry - domContentLoadedEventStart navigationEntry;
               loadComplete = loadEventEnd navigationEntry - loadEventStart navigationEntry
           in prepend [Performance_getEntriesByType ''navigation'']
                (block [
                   console_log Msg_performance_metrics,
                   console_log (Msg_DOMContentLoaded domContentLoaded),
                   console_log (Msg_Load_Complete loadComplete),
                   console_log (Msg_DNS_Lookup
                     (domainLookupEnd navigationEntry - domainLookupStart navigationEntry)),
                   console_log (Msg_TCP_Connect
                     (connectEnd navigationEntry - connectStart navigationEntry))] w)))"

text \<open>The descriptor of line 161: \<open>value\<close>, \<open>writable: false\<close>, \<open>configurable: false\<close>,
  and no other field.\<close>

definition perf_tools_descriptor :: descriptor where
  "perf_tools_descriptor =
     \<lparr>d_value = Some PerformanceTools_object, d_writable = Some False, d_get = None,
      d_set = None, d_enumerable = None, d_configurable = Some False\<rparr>"

text \<open>The module body. \<open>app\<close> is what \<open>createApp\<close> returned (line 17); \<open>isDev\<close> is
  \<open>import.meta.env.DEV\<close>, which the module reads at lines 32, 88 and 143.\<close>

definition main :: "('s, 'n::minus) environment \<Rightarrow> bool \<Rightarrow> ('s, 'n) js" where
  "main c isDev =
     bind (call c CreateApp) (\<lambda>app.
       block [
         call c UsePinia,
         method_call c app ''use'' (App_use Router),
         method_call c app ''use'' (App_use I18n),
         call c StoreManager_initialize,
         call c (MemoryLeakDetector_startMonitoring (if isDev then 15000 else 30000)),
         add_event_listener ''beforeunload'' (Unload_cleanup isDev),
         if_then isDev (window_assign ''debugMemory'' DebugMemory_object),
         if_then isDev
           (block [
              console_log Msg_dev_tools_enabled,
              call c (MemoryMonitor_startMonitoring 15000),
              bind (call c (ComponentPreloader_preloadComponent ''HomeView''))
                (\<lambda>p. promise_catch c p Console_error_callback),
              console_log Msg_tools_status,
              console_log Msg_status_leak_detection,
              console_log Msg_status_memory_monitor,
              console_log Msg_status_preloader,
              console_log Msg_status_bundle_analyzer,
              console_log Msg_status_code_splitting,
              console_log Msg_status_event_listeners]),
         method_call c app ''mount'' (App_mount ''#app''),
         performance_report c,
         property_assign (member app ''config'') ''errorHandler'' Assign_errorHandler,
         if_then isDev
           (block [
              property_assign (member (member app ''config'') ''globalProperties'')
                ''$performance'' Assign_globalProperties_performance,
              object_defineProperty ''__PERF_TOOLS__'' perf_tools_descriptor,
              console_log Msg_perf_tools_mounted])])"


section \<open>What a run is asked about\<close>

subsection \<open>Reading the events of a run\<close>

text \<open>The steps a run has invoked: the loading of a module (\<open>import()\<close>) and the calls
  on collaborators, without their results and without the console output.\<close>

datatype invocation = Load module_spec | Invoke ext_call

fun invocation_of :: "'n event \<Rightarrow> invocation list" where
  "invocation_of (Call k r) = [Invoke k]"
| "invocation_of (Import m r) = [Load m]"
| "invocation_of ev = []"

definition invocations :: "'n event list \<Rightarrow> invocation list" where
  "invocations evs = concat (map invocation_of evs)"

text \<open>A step has failed when a call throws, when an awaited import rejects or never
  settles, or when the language raises a \<open>TypeError\<close>.\<close>

fun failed :: "'n event \<Rightarrow> bool" where
  "failed (Call k (Throws e)) = True"
| "failed (Import m (Rejects e)) = True"
| "failed (Import m Pending) = True"
| "failed (Type_error name) = True"
| "failed ev = False"

text \<open>The statements of the handler after the first \<open>console.log\<close>, in the order of the
  source (lines 40 to 70): every module load and call that the handler can make.\<close>

definition unload_sequence :: "invocation list" where
  "unload_sequence =
     [Load Websocket_service,
      Invoke WebSocketService_destroyInstance,
      Invoke MemoryLeakDetector_stopMonitoring,
      Invoke WebSocketCleaner_cleanupAll,
      Invoke StoreCleaner_cleanupAll,
      Load Memory_optimization,
      Invoke MemoryOptimizer_getInstance,
      Invoke MemoryOptimizer_cleanup,
      Invoke MemoryMonitor_stopMonitoring,
      Invoke ComponentPreloader_destroy,
      Invoke EventListenerManager_cleanup,
      Invoke CodeSplittingManager_cleanup,
      Invoke BundleAnalyzer_printReport]"

text \<open>The steps that come after a call in that order.\<close>

definition steps_after :: "ext_call \<Rightarrow> invocation list" where
  "steps_after k = tl (dropWhile (\<lambda>i. i \<noteq> Invoke k) unload_sequence)"

text \<open>The calls of the handler that stand outside every \<open>try\<close> block (lines 48, 51, 54
  and 66 to 70).\<close>

definition unprotected_calls :: "ext_call list" where
  "unprotected_calls =
     [MemoryLeakDetector_stopMonitoring,
      WebSocketCleaner_cleanupAll,
      StoreCleaner_cleanupAll,
      MemoryMonitor_stopMonitoring,
      ComponentPreloader_destroy,
      EventListenerManager_cleanup,
      CodeSplittingManager_cleanup,
      BundleAnalyzer_printReport]"

text \<open>A failure that no \<open>try\<close> block of the handler contains: one of the unprotected
  calls throws. An import that never settles is listed with them: the handler waits for it
  for ever.\<close>

fun unprotected_failure :: "'n event \<Rightarrow> bool" where
  "unprotected_failure (Call k (Throws e)) = (k \<in> set unprotected_calls)"
| "unprotected_failure (Import m Pending) = True"
| "unprotected_failure ev = False"





text \<open>The failures of a \<open>try\<close> block that come before one of its calls, so that the call
  is not made: \<open>destroyInstance\<close> is not called when the import rejects or the member is
  not a function; \<open>getInstance\<close> likewise; \<open>cleanup\<close> is not called when \<open>getInstance\<close>
  throws or what it returned has no such method.\<close>

fun skips_destroyInstance :: "'n event \<Rightarrow> bool" where
  "skips_destroyInstance (Import Websocket_service (Rejects e)) = True"
| "skips_destroyInstance (Type_error name) = (name = ''destroyInstance'')"
| "skips_destroyInstance ev = False"

fun skips_getInstance :: "'n event \<Rightarrow> bool" where
  "skips_getInstance (Import Memory_optimization (Rejects e)) = True"
| "skips_getInstance (Type_error name) = (name = ''getInstance'')"
| "skips_getInstance ev = False"

fun skips_cleanup :: "'n event \<Rightarrow> bool" where
  "skips_cleanup (Call MemoryOptimizer_getInstance (Throws e)) = True"
| "skips_cleanup (Type_error name) = (name = ''cleanup'')"
| "skips_cleanup ev = False"

text \<open>The steps of each statement of the handler, in the order of the source, as far as
  the failures of the run let a \<open>try\<close> block go: the network-service step (lines 40 to
  45), the three calls of lines 48 to 54, the memory-optimizer step (lines 57 to 62) and
  the calls of the development block (lines 65 to 71).\<close>

definition network_steps :: "'n event list \<Rightarrow> invocation list" where
  "network_steps evs =
     Load Websocket_service #
     (if filter skips_destroyInstance evs = []
      then [Invoke WebSocketService_destroyInstance] else [])"

definition middle_steps :: "invocation list" where
  "middle_steps =
     [Invoke MemoryLeakDetector_stopMonitoring,
      Invoke WebSocketCleaner_cleanupAll,
      Invoke StoreCleaner_cleanupAll]"

definition optimizer_steps :: "'n event list \<Rightarrow> invocation list" where
  "optimizer_steps evs =
     Load Memory_optimization #
     (if filter skips_getInstance evs = []
      then Invoke MemoryOptimizer_getInstance #
           (if filter skips_cleanup evs = [] then [Invoke MemoryOptimizer_cleanup] else [])
      else [])"

definition dev_steps :: "bool \<Rightarrow> invocation list" where
  "dev_steps isDev =
     (if isDev
      then [Invoke MemoryMonitor_stopMonitoring,
            Invoke ComponentPreloader_destroy,
            Invoke EventListenerManager_cleanup,
            Invoke CodeSplittingManager_cleanup,
            Invoke BundleAnalyzer_printReport]
      else [])"

definition is_dev_step :: "invocation \<Rightarrow> bool" where
  "is_dev_step i = (i \<in> set (dev_steps True))"

definition statement_steps :: "bool \<Rightarrow> 'n event list \<Rightarrow> invocation list" where
  "statement_steps isDev evs =
     network_steps evs @ middle_steps @ optimizer_steps evs @ dev_steps isDev"

text \<open>The calls that start the memory monitor or preload a component.\<close>

fun dev_monitoring_call :: "'n event \<Rightarrow> bool" where
  "dev_monitoring_call (Call (MemoryMonitor_startMonitoring n) r) = True"
| "dev_monitoring_call (Call (ComponentPreloader_preloadComponent name) r) = True"
| "dev_monitoring_call ev = False"

fun leak_interval :: "'n event \<Rightarrow> nat list" where
  "leak_interval (Call (MemoryLeakDetector_startMonitoring n) r) = [n]"
| "leak_interval ev = []"

text \<open>The intervals that the calls of \<open>memoryLeakDetector.startMonitoring\<close> of a run
  were given, one for each call.\<close>

definition leak_detector_intervals :: "'n event list \<Rightarrow> nat list" where
  "leak_detector_intervals evs = concat (map leak_interval evs)"

fun is_defineProperty :: "'n event \<Rightarrow> bool" where
  "is_defineProperty (Object_defineProperty name) = True"
| "is_defineProperty ev = False"

text \<open>A call that has returned.\<close>

fun returned :: "ext_call \<Rightarrow> 'n event \<Rightarrow> bool" where
  "returned k (Call k' (Returns v)) = (k = k')"
| "returned k ev = False"

fun is_perf_read :: "'n event \<Rightarrow> bool" where
  "is_perf_read (Performance_getEntriesByType name) = True"
| "is_perf_read ev = False"

text \<open>Whether a property is writable and whether it is configurable; an accessor
  property has no \<open>writable\<close> flag.\<close>

fun flags :: "property option \<Rightarrow> (bool \<times> bool) option" where
  "flags (Some (Data v wr en cf)) = Some (wr, cf)"
| "flags (Some (Accessor g s en cf)) = None"
| "flags None = None"

text \<open>The events of a run that come after the first event of a kind.\<close>

definition events_after :: "('n event \<Rightarrow> bool) \<Rightarrow> 'n event list \<Rightarrow> 'n event list" where
  "events_after p evs = tl (dropWhile (\<lambda>ev. \<not> p ev) evs)"

fun is_mount :: "'n event \<Rightarrow> bool" where
  "is_mount (Call (App_mount sel) r) = True"
| "is_mount ev = False"

fun is_preload :: "'n event \<Rightarrow> bool" where
  "is_preload (Call (ComponentPreloader_preloadComponent name) r) = True"
| "is_preload ev = False"

subsection \<open>The unload sequence as the specification lists it\<close>

text \<open>The order of the cleanup steps in the words of the specification: the network
  service (loaded, then destroyed), the leak monitoring, the WebSocket resources, the
  stores, the memory optimizer (loaded, then cleaned up) and, in development mode only, the
  memory monitor, the component preloader, the event listener tracking and the bundle
  report.\<close>

definition spec_unload_order :: "bool \<Rightarrow> invocation list" where
  "spec_unload_order dev =
     [Load Websocket_service,
      Invoke WebSocketService_destroyInstance,
      Invoke MemoryLeakDetector_stopMonitoring,
      Invoke WebSocketCleaner_cleanupAll,
      Invoke StoreCleaner_cleanupAll,
      Load Memory_optimization,
      Invoke MemoryOptimizer_getInstance,
      Invoke MemoryOptimizer_cleanup] @
     (if dev
      then [Invoke MemoryMonitor_stopMonitoring,
            Invoke ComponentPreloader_destroy,
            Invoke EventListenerManager_cleanup,
            Invoke BundleAnalyzer_printReport]
      else [])"

definition in_spec_order :: "invocation \<Rightarrow> bool" where
  "in_spec_order i = (i \<in> set (spec_unload_order True))"

subsection \<open>A sample page\<close>

text \<open>A concrete environment, to run the module on: the state of the collaborators is
  whether the leak detector is running; the results of the calls and of the imports named in
  the two lists are as the lists say; every other import fulfils with a namespace that
  exports the class, and every other call returns \<open>undefined\<close>, except that \<open>createApp\<close>
  returns an application, \<open>getInstance\<close> an instance with a method \<open>cleanup\<close> and
  \<open>preloadComponent\<close> a promise that fulfils.\<close>

fun sample_state :: "ext_call \<Rightarrow> bool \<Rightarrow> bool" where
  "sample_state (MemoryLeakDetector_startMonitoring n) running = True"
| "sample_state MemoryLeakDetector_stopMonitoring running = False"
| "sample_state k running = running"

definition sample_app :: js_val where
  "sample_app =
     Object [(''use'', Function), (''mount'', Function),
             (''config'', Object [(''globalProperties'', Object [])])]"

definition sample_instance :: js_val where
  "sample_instance = Object [(''cleanup'', Function)]"

fun sample_module :: "module_spec \<Rightarrow> js_val" where
  "sample_module Websocket_service =
     Object [(''WebSocketService'', Object [(''destroyInstance'', Function)])]"
| "sample_module Memory_optimization =
     Object [(''MemoryOptimizer'', Object [(''getInstance'', Function)])]"

fun sample_result :: "ext_call \<Rightarrow> ext_result" where
  "sample_result CreateApp = Returns sample_app"
| "sample_result MemoryOptimizer_getInstance = Returns sample_instance"
| "sample_result (ComponentPreloader_preloadComponent name) =
     Returns (Promise (Fulfils Undefined))"
| "sample_result k = Returns Undefined"

definition sample_env ::
  "(ext_call \<times> ext_result) list \<Rightarrow> (module_spec \<times> settlement) list \<Rightarrow>
     int navigation_timing list \<Rightarrow> (bool, int) environment" where
  "sample_env calls imports entries =
     \<lparr>ext = (\<lambda>k s. (case map_of calls k of None \<Rightarrow> sample_result k | Some r \<Rightarrow> r,
                     sample_state k s)),
      dyn_import = (\<lambda>m s. (case map_of imports m of
                               None \<Rightarrow> Fulfils (sample_module m)
                             | Some r \<Rightarrow> r, s)),
      navigation_entries = entries\<rparr>"

definition sample_page :: "bool \<Rightarrow> bool world" where
  "sample_page running =
     \<lparr>ext_state = running, window = (\<lambda>name. None), listeners = [], reactions = []\<rparr>"

definition sample_entry :: "int navigation_timing" where
  "sample_entry =
     \<lparr>domContentLoadedEventEnd = 120, domContentLoadedEventStart = 100,
      loadEventEnd = 205, loadEventStart = 200,
      domainLookupEnd = 13, domainLookupStart = 10,
      connectEnd = 40, connectStart = 13\<rparr>"

section \<open>Running a block step by step\<close>

text \<open>The part of the world that the collaborators do not touch: the properties of
  \<open>window\<close>, the listeners and the reactions.\<close>

definition frame ::
  "'s world \<Rightarrow> js_object \<times> (string \<times> listener) list \<times> (settlement \<times> reaction) list" where
  "frame w = (window w, listeners w, reactions w)"

text \<open>\<open>always fr acc st P\<close>: from every world with the frame \<open>fr\<close>, the run of \<open>st\<close>,
  with the events \<open>acc\<close> in front, satisfies \<open>P\<close>.\<close>

definition always ::
  "js_object \<times> (string \<times> listener) list \<times> (settlement \<times> reaction) list \<Rightarrow> 'n event list \<Rightarrow>
     ('s, 'n) js \<Rightarrow> (completion \<times> 's world \<times> 'n event list \<Rightarrow> bool) \<Rightarrow> bool" where
  "always fr acc st P = (\<forall>w. frame w = fr \<longrightarrow> P (prepend acc (st w)))"


section \<open>Lemmas\<close>

lemma prepend_prepend: "prepend a (prepend b x) = prepend (a @ b) x"
  by (cases x) simp

lemma prepend_Nil: "prepend [] x = x"
  by (cases x) simp

lemma frame_ext_state: "frame (w\<lparr>ext_state := s\<rparr>) = frame w"
  by (simp add: frame_def)

lemma alwaysD: "always (window w, listeners w, reactions w) [] st P \<Longrightarrow> P (st w)"
  by (simp add: always_def prepend_Nil frame_def)

lemma alwaysE: "always fr acc st P \<Longrightarrow> frame w = fr \<Longrightarrow> P (prepend acc (st w))"
  by (simp add: always_def)

lemma continue_with_prepend:
  "continue_with (prepend t x) f = prepend t (continue_with x f)"
  by (cases x; cases "fst x") (auto simp: prepend_prepend)

lemma continue_with_assoc:
  "continue_with (continue_with x f) g = continue_with x (\<lambda>v w. continue_with (f v w) g)"
  by (cases x; cases "fst x") (auto simp: continue_with_prepend)

text \<open>A call of a member with a name that the object of line 77 does not have is the
  call on the collaborator or a \<open>TypeError\<close>.\<close>

lemma method_call_cases:
  assumes "map_of debugMemory_members name = None"
  shows "method_call c v name k w = call c k w \<or> method_call c v name k w = type_error name w"
  using assms by (cases v) (simp_all add: method_call_def)

lemma not_debugMemory_member:
  "map_of debugMemory_members ''use'' = None"
  "map_of debugMemory_members ''mount'' = None"
  "map_of debugMemory_members ''catch'' = None"
  "map_of debugMemory_members ''destroyInstance'' = None"
  "map_of debugMemory_members ''getInstance'' = None"
  "map_of debugMemory_members ''cleanup'' = None"
  by (simp_all add: debugMemory_members_def)

text \<open>The outcomes of a call, of a member call and of an import, from a world with a given
  frame.\<close>

lemma call_outcomes:
  fixes c :: "('s, 'n) environment" and w :: "'s world"
  obtains (returns) v w' where "call c k w = (Normal v, w', [Call k (Returns v)])"
      and "frame w' = frame w"
    | (throws) e w' where "call c k w = (Abrupt e, w', [Call k (Throws e)])"
      and "frame w' = frame w"
proof -
  obtain r s' where e: "ext c k (ext_state w) = (r, s')"
    by (cases "ext c k (ext_state w)")
  show thesis
  proof (cases r)
    case (Returns v)
    with e have "call c k w = (Normal v, w\<lparr>ext_state := s'\<rparr>, [Call k (Returns v)])"
      by (simp add: call_def)
    then show thesis by (rule returns) (simp add: frame_ext_state)
  next
    case (Throws x)
    with e have "call c k w = (Abrupt x, w\<lparr>ext_state := s'\<rparr>, [Call k (Throws x)])"
      by (simp add: call_def)
    then show thesis by (rule throws) (simp add: frame_ext_state)
  qed
qed

lemma method_call_outcomes:
  fixes c :: "('s, 'n) environment" and w :: "'s world"
  assumes "map_of debugMemory_members name = None"
  obtains (returns) v' w' where
        "method_call c v name k w = (Normal v', w', [Call k (Returns v')])"
      and "frame w' = frame w"
    | (throws) e w' where "method_call c v name k w = (Abrupt e, w', [Call k (Throws e)])"
      and "frame w' = frame w"
    | (type_error) "method_call c v name k w = (Abrupt (TypeError name), w, [Type_error name])"
proof -
  from method_call_cases [OF assms, of c v k w]
  consider "method_call c v name k w = call c k w"
    | "method_call c v name k w = type_error name w"
    by blast
  then show thesis
  proof cases
    case 1
    show thesis
    proof (cases rule: call_outcomes [of c k w])
      case (returns v' w')
      with 1 show thesis by (intro that(1) [of v' w']) simp_all
    next
      case (throws e w')
      with 1 show thesis by (intro that(2) [of e w']) simp_all
    qed
  next
    case 2
    then show thesis by (intro that(3)) (simp add: type_error_def)
  qed
qed

lemma import_outcomes:
  fixes c :: "('s, 'n) environment" and w :: "'s world"
  obtains (fulfils) ns w' where
        "await_import c m w = (Normal ns, w', [Import m (Fulfils ns)])"
      and "frame w' = frame w"
    | (rejects) e w' where "await_import c m w = (Abrupt e, w', [Import m (Rejects e)])"
      and "frame w' = frame w"
    | (pending) w' where "await_import c m w = (Suspended, w', [Import m Pending])"
      and "frame w' = frame w"
proof -
  obtain r s' where e: "dyn_import c m (ext_state w) = (r, s')"
    by (cases "dyn_import c m (ext_state w)")
  show thesis
  proof (cases r)
    case (Fulfils ns)
    with e have "await_import c m w = (Normal ns, w\<lparr>ext_state := s'\<rparr>, [Import m (Fulfils ns)])"
      by (simp add: await_import_def)
    then show thesis by (rule fulfils) (simp add: frame_ext_state)
  next
    case (Rejects x)
    with e have "await_import c m w = (Abrupt x, w\<lparr>ext_state := s'\<rparr>, [Import m (Rejects x)])"
      by (simp add: await_import_def)
    then show thesis by (rule rejects) (simp add: frame_ext_state)
  next
    case Pending
    with e have "await_import c m w = (Suspended, w\<lparr>ext_state := s'\<rparr>, [Import m Pending])"
      by (simp add: await_import_def)
    then show thesis by (rule pending) (simp add: frame_ext_state)
  qed
qed

subsection \<open>One rule for each kind of statement\<close>

lemma always_nil:
  assumes "\<And>w. frame w = fr \<Longrightarrow> P (Normal Undefined, w, acc)"
  shows "always fr acc (block []) P"
  using assms by (simp add: always_def)

lemma always_call:
  fixes c :: "('s, 'n) environment"
  assumes ret: "\<And>v. always fr (acc @ [Call k (Returns v)]) (block sts) P"
    and thr: "\<And>e w. frame w = fr \<Longrightarrow> P (Abrupt e, w, acc @ [Call k (Throws e)])"
  shows "always fr acc (block (call c k # sts)) P"
  unfolding always_def
proof (intro allI impI)
  fix w :: "'s world"
  assume fr: "frame w = fr"
  show "P (prepend acc (block (call c k # sts) w))"
  proof (cases rule: call_outcomes [of c k w])
    case (returns v w')
    with alwaysE [OF ret [of v], of w'] fr show ?thesis
      by (simp add: bind_def prepend_prepend)
  next
    case (throws e w')
    with thr [of w' e] fr show ?thesis
      by (simp add: bind_def)
  qed
qed

lemma always_bind_call:
  fixes c :: "('s, 'n) environment"
  assumes ret: "\<And>v. always fr (acc @ [Call k (Returns v)]) (f v) P"
    and thr: "\<And>e w. frame w = fr \<Longrightarrow> P (Abrupt e, w, acc @ [Call k (Throws e)])"
  shows "always fr acc (bind (call c k) f) P"
  unfolding always_def
proof (intro allI impI)
  fix w :: "'s world"
  assume fr: "frame w = fr"
  show "P (prepend acc (bind (call c k) f w))"
  proof (cases rule: call_outcomes [of c k w])
    case (returns v w')
    with alwaysE [OF ret [of v], of w'] fr show ?thesis
      by (simp add: bind_def prepend_prepend)
  next
    case (throws e w')
    with thr [of w' e] fr show ?thesis
      by (simp add: bind_def)
  qed
qed

lemma always_method_call:
  fixes c :: "('s, 'n) environment"
  assumes name: "map_of debugMemory_members name = None"
    and ret: "\<And>v'. always fr (acc @ [Call k (Returns v')]) (block sts) P"
    and thr: "\<And>e w. frame w = fr \<Longrightarrow> P (Abrupt e, w, acc @ [Call k (Throws e)])"
    and te: "\<And>w. frame w = fr \<Longrightarrow> P (Abrupt (TypeError name), w, acc @ [Type_error name])"
  shows "always fr acc (block (method_call c v name k # sts)) P"
  unfolding always_def
proof (intro allI impI)
  fix w :: "'s world"
  assume fr: "frame w = fr"
  show "P (prepend acc (block (method_call c v name k # sts) w))"
    using name
  proof (cases rule: method_call_outcomes [where c = c and v = v and k = k and w = w])
    case (returns v' w')
    with alwaysE [OF ret [of v'], of w'] fr show ?thesis
      by (simp add: bind_def prepend_prepend)
  next
    case (throws e w')
    with thr [of w' e] fr show ?thesis
      by (simp add: bind_def)
  next
    case type_error
    with te [of w] fr show ?thesis
      by (simp add: bind_def)
  qed
qed

lemmas always_app_use = always_method_call [OF not_debugMemory_member(1)]

lemmas always_app_mount = always_method_call [OF not_debugMemory_member(2)]

lemma always_property_assign:
  assumes ok: "always fr (acc @ [ev]) (block sts) P"
    and te: "\<And>w. frame w = fr \<Longrightarrow> P (Abrupt (TypeError name), w, acc @ [Type_error name])"
  shows "always fr acc (block (property_assign target name ev # sts)) P"
  using assms
  by (cases "is_object target")
    (simp_all add: always_def bind_def property_assign_def emit_def type_error_def
      prepend_prepend)

lemma always_emit:
  assumes "always fr (acc @ [ev]) (block sts) P"
  shows "always fr acc (block (emit ev # sts)) P"
  using assms by (simp add: always_def bind_def emit_def prepend_prepend)

lemma always_console_log:
  assumes "always fr (acc @ [Console_log m]) (block sts) P"
  shows "always fr acc (block (console_log m # sts)) P"
  using assms by (simp add: always_def bind_def emit_def console_log_def prepend_prepend)

lemma always_if_then:
  assumes "b \<Longrightarrow> always fr acc (block (st # sts)) P"
    and "\<not> b \<Longrightarrow> always fr acc (block sts) P"
  shows "always fr acc (block (if_then b st # sts)) P"
  using assms by (cases b) (simp_all add: always_def bind_def if_then_def prepend_Nil)

lemma always_block_Cons:
  assumes "always fr acc (block (x # block xs # sts)) P"
  shows "always fr acc (block (block (x # xs) # sts)) P"
proof -
  have eq: "(\<lambda>_::js_val. block (block xs # sts)) =
      (\<lambda>v w. continue_with (block xs w) (\<lambda>_. block sts))"
    by (intro ext) (simp add: bind_def)
  have "block (x # block xs # sts) w = block (block (x # xs) # sts) w" for w
    by (simp add: bind_def continue_with_assoc eq)
  with assms show ?thesis by (simp add: always_def)
qed

lemma always_block_Nil:
  assumes "always fr acc (block sts) P"
  shows "always fr acc (block (block [] # sts)) P"
  using assms by (simp add: always_def bind_def prepend_Nil)


text \<open>The network-service step (lines 40 to 45) and what follows it.\<close>

lemma always_try_ws:
  fixes c :: "('s, 'n) environment"
  assumes ok: "\<And>ns v. always fr (acc @ [Import Websocket_service (Fulfils ns),
              Call WebSocketService_destroyInstance (Returns v)]) (block sts) P"
    and thr: "\<And>ns e. always fr (acc @ [Import Websocket_service (Fulfils ns),
              Call WebSocketService_destroyInstance (Throws e),
              Console_error (Some WebSocketService_cleanup_failed) e]) (block sts) P"
    and te: "\<And>ns. always fr (acc @ [Import Websocket_service (Fulfils ns),
              Type_error ''destroyInstance'',
              Console_error (Some WebSocketService_cleanup_failed)
                (TypeError ''destroyInstance'')]) (block sts) P"
    and rej: "\<And>e. always fr (acc @ [Import Websocket_service (Rejects e),
              Console_error (Some WebSocketService_cleanup_failed) e]) (block sts) P"
    and pend: "\<And>w. frame w = fr \<Longrightarrow> P (Suspended, w, acc @ [Import Websocket_service Pending])"
  shows "always fr acc
           (block (try_catch
              (bind (await_import c Websocket_service)
                 (\<lambda>ns. method_call c (member ns ''WebSocketService'') ''destroyInstance''
                          WebSocketService_destroyInstance))
              (\<lambda>error. console_error (Some WebSocketService_cleanup_failed) error) # sts)) P"
  unfolding always_def
proof (intro allI impI)
  fix w :: "'s world"
  assume fr: "frame w = fr"
  note defs = bind_def try_catch_def prepend_prepend console_error_def emit_def
  show "P (prepend acc (block (try_catch
              (bind (await_import c Websocket_service)
                 (\<lambda>ns. method_call c (member ns ''WebSocketService'') ''destroyInstance''
                          WebSocketService_destroyInstance))
              (\<lambda>error. console_error (Some WebSocketService_cleanup_failed) error) # sts) w))"
  proof (cases rule: import_outcomes [of c Websocket_service w])
    case (fulfils ns w1)
    show ?thesis
      using not_debugMemory_member(4)
    proof (cases rule: method_call_outcomes [where c = c
          and v = "member ns ''WebSocketService''" and k = WebSocketService_destroyInstance
          and w = w1])
      case (returns v w2)
      with fulfils alwaysE [OF ok [of ns v], of w2] fr show ?thesis
        by (simp add: defs)
    next
      case (throws e w2)
      with fulfils alwaysE [OF thr [of ns e], of w2] fr show ?thesis
        by (simp add: defs)
    next
      case type_error
      with fulfils alwaysE [OF te [of ns], of w1] fr show ?thesis
        by (simp add: defs)
    qed
  next
    case (rejects e w1)
    with alwaysE [OF rej [of e], of w1] fr show ?thesis
      by (simp add: defs)
  next
    case (pending w1)
    with pend [of w1] fr show ?thesis
      by (simp add: defs)
  qed
qed

text \<open>The memory-optimizer step (lines 57 to 62) and what follows it.\<close>

lemma always_try_mo:
  fixes c :: "('s, 'n) environment"
  assumes ok: "\<And>ns v v'. always fr (acc @ [Import Memory_optimization (Fulfils ns),
              Call MemoryOptimizer_getInstance (Returns v),
              Call MemoryOptimizer_cleanup (Returns v')]) (block sts) P"
    and thr_cleanup: "\<And>ns v e. always fr (acc @ [Import Memory_optimization (Fulfils ns),
              Call MemoryOptimizer_getInstance (Returns v),
              Call MemoryOptimizer_cleanup (Throws e),
              Console_error (Some MemoryOptimizer_cleanup_failed) e]) (block sts) P"
    and te_cleanup: "\<And>ns v. always fr (acc @ [Import Memory_optimization (Fulfils ns),
              Call MemoryOptimizer_getInstance (Returns v),
              Type_error ''cleanup'',
              Console_error (Some MemoryOptimizer_cleanup_failed) (TypeError ''cleanup'')])
              (block sts) P"
    and thr_get: "\<And>ns e. always fr (acc @ [Import Memory_optimization (Fulfils ns),
              Call MemoryOptimizer_getInstance (Throws e),
              Console_error (Some MemoryOptimizer_cleanup_failed) e]) (block sts) P"
    and te_get: "\<And>ns. always fr (acc @ [Import Memory_optimization (Fulfils ns),
              Type_error ''getInstance'',
              Console_error (Some MemoryOptimizer_cleanup_failed) (TypeError ''getInstance'')])
              (block sts) P"
    and rej: "\<And>e. always fr (acc @ [Import Memory_optimization (Rejects e),
              Console_error (Some MemoryOptimizer_cleanup_failed) e]) (block sts) P"
    and pend: "\<And>w. frame w = fr \<Longrightarrow> P (Suspended, w, acc @ [Import Memory_optimization Pending])"
  shows "always fr acc
           (block (try_catch
              (bind (await_import c Memory_optimization)
                 (\<lambda>ns. bind (method_call c (member ns ''MemoryOptimizer'') ''getInstance''
                                MemoryOptimizer_getInstance)
                          (\<lambda>instance. method_call c instance ''cleanup''
                             MemoryOptimizer_cleanup)))
              (\<lambda>error. console_error (Some MemoryOptimizer_cleanup_failed) error) # sts)) P"
  unfolding always_def
proof (intro allI impI)
  fix w :: "'s world"
  assume fr: "frame w = fr"
  note defs = bind_def try_catch_def prepend_prepend console_error_def emit_def
  show "P (prepend acc (block (try_catch
              (bind (await_import c Memory_optimization)
                 (\<lambda>ns. bind (method_call c (member ns ''MemoryOptimizer'') ''getInstance''
                                MemoryOptimizer_getInstance)
                          (\<lambda>instance. method_call c instance ''cleanup''
                             MemoryOptimizer_cleanup)))
              (\<lambda>error. console_error (Some MemoryOptimizer_cleanup_failed) error) # sts) w))"
  proof (cases rule: import_outcomes [of c Memory_optimization w])
    case (fulfils ns w1)
    show ?thesis
      using not_debugMemory_member(5)
    proof (cases rule: method_call_outcomes [where c = c
          and v = "member ns ''MemoryOptimizer''" and k = MemoryOptimizer_getInstance
          and w = w1])
      case get: (returns v w2)
      show ?thesis
        using not_debugMemory_member(6)
      proof (cases rule: method_call_outcomes [where c = c and v = v
            and k = MemoryOptimizer_cleanup and w = w2])
        case (returns v' w3)
        with fulfils get alwaysE [OF ok [of ns v v'], of w3] fr show ?thesis
          by (simp add: defs)
      next
        case (throws e w3)
        with fulfils get alwaysE [OF thr_cleanup [of ns v e], of w3] fr show ?thesis
          by (simp add: defs)
      next
        case type_error
        with fulfils get alwaysE [OF te_cleanup [of ns v], of w2] fr show ?thesis
          by (simp add: defs)
      qed
    next
      case (throws e w2)
      with fulfils alwaysE [OF thr_get [of ns e], of w2] fr show ?thesis
        by (simp add: defs)
    next
      case type_error
      with fulfils alwaysE [OF te_get [of ns], of w1] fr show ?thesis
        by (simp add: defs)
    qed
  next
    case (rejects e w1)
    with alwaysE [OF rej [of e], of w1] fr show ?thesis
      by (simp add: defs)
  next
    case (pending w1)
    with pend [of w1] fr show ?thesis
      by (simp add: defs)
  qed
qed

text \<open>The statements that change the frame.\<close>

lemma always_add_listener:
  fixes sts :: "('s, 'n) js list"
  assumes "always (win, ls @ [(name, l)], rs) (acc @ [AddEventListener name]) (block sts) P"
  shows "always (win, ls, rs) acc (block (add_event_listener name l # sts)) P"
  unfolding always_def
proof (intro allI impI)
  fix w :: "'s world"
  assume fr: "frame w = (win, ls, rs)"
  then have "frame (w\<lparr>listeners := listeners w @ [(name, l)]\<rparr>) = (win, ls @ [(name, l)], rs)"
    by (simp add: frame_def)
  from alwaysE [OF assms this]
  show "P (prepend acc (block (add_event_listener name l # sts) w))"
    by (simp add: bind_def add_event_listener_def prepend_prepend)
qed

lemma always_window_assign:
  fixes sts :: "('s, 'n) js list"
  assumes ok: "\<And>obj. set_property win name v = Inr obj \<Longrightarrow>
      always (obj, ls, rs) (acc @ [Assign_window name]) (block sts) P"
    and thr: "\<And>e w. set_property win name v = Inl e \<Longrightarrow> frame w = (win, ls, rs) \<Longrightarrow>
      P (Abrupt e, w, acc @ [Assign_window name, Type_error name])"
  shows "always (win, ls, rs) acc (block (window_assign name v # sts)) P"
  unfolding always_def
proof (intro allI impI)
  fix w :: "'s world"
  assume fr: "frame w = (win, ls, rs)"
  then have win: "window w = win" by (simp add: frame_def)
  show "P (prepend acc (block (window_assign name v # sts) w))"
  proof (cases "set_property win name v")
    case (Inl e)
    with thr [OF Inl fr] win show ?thesis
      by (simp add: bind_def window_assign_def)
  next
    case (Inr obj)
    from fr have "frame (w\<lparr>window := obj\<rparr>) = (obj, ls, rs)"
      by (simp add: frame_def)
    from alwaysE [OF ok [OF Inr] this] Inr win show ?thesis
      by (simp add: bind_def window_assign_def prepend_prepend)
  qed
qed

lemma always_defineProperty:
  fixes sts :: "('s, 'n) js list"
  assumes ok: "\<And>obj. define_property win name d = Inr obj \<Longrightarrow>
      always (obj, ls, rs) (acc @ [Object_defineProperty name]) (block sts) P"
    and thr: "\<And>e w. define_property win name d = Inl e \<Longrightarrow> frame w = (win, ls, rs) \<Longrightarrow>
      P (Abrupt e, w, acc @ [Object_defineProperty name, Type_error name])"
  shows "always (win, ls, rs) acc (block (object_defineProperty name d # sts)) P"
  unfolding always_def
proof (intro allI impI)
  fix w :: "'s world"
  assume fr: "frame w = (win, ls, rs)"
  then have win: "window w = win" by (simp add: frame_def)
  show "P (prepend acc (block (object_defineProperty name d # sts) w))"
  proof (cases "define_property win name d")
    case (Inl e)
    with thr [OF Inl fr] win show ?thesis
      by (simp add: bind_def object_defineProperty_def)
  next
    case (Inr obj)
    from fr have "frame (w\<lparr>window := obj\<rparr>) = (obj, ls, rs)"
      by (simp add: frame_def)
    from alwaysE [OF ok [OF Inr] this] Inr win show ?thesis
      by (simp add: bind_def object_defineProperty_def prepend_prepend)
  qed
qed

text \<open>Line 95: the call of \<open>preloadComponent\<close> and the \<open>catch\<close> on what it returned.\<close>

lemma always_call_catch:
  fixes c :: "('s, 'n) environment"
  assumes ok: "\<And>p. always (win, ls, rs @ [(p, r)]) (acc @ [Call k (Returns (Promise p))])
      (block sts) P"
    and other: "\<And>v v'. \<forall>p. v \<noteq> Promise p \<Longrightarrow>
      always (win, ls, rs) (acc @ [Call k (Returns v), Call Preloaded_catch (Returns v')])
        (block sts) P"
    and other_thr: "\<And>v e w. \<forall>p. v \<noteq> Promise p \<Longrightarrow> frame w = (win, ls, rs) \<Longrightarrow>
      P (Abrupt e, w, acc @ [Call k (Returns v), Call Preloaded_catch (Throws e)])"
    and nop: "\<And>v w. \<forall>p. v \<noteq> Promise p \<Longrightarrow> frame w = (win, ls, rs) \<Longrightarrow>
      P (Abrupt (TypeError ''catch''), w, acc @ [Call k (Returns v), Type_error ''catch''])"
    and thr: "\<And>e w. frame w = (win, ls, rs) \<Longrightarrow> P (Abrupt e, w, acc @ [Call k (Throws e)])"
  shows "always (win, ls, rs) acc
           (block (bind (call c k) (\<lambda>p. promise_catch c p r) # sts)) P"
  unfolding always_def
proof (intro allI impI)
  fix w :: "'s world"
  assume fr: "frame w = (win, ls, rs)"
  show "P (prepend acc (block (bind (call c k) (\<lambda>p. promise_catch c p r) # sts) w))"
  proof (cases rule: call_outcomes [of c k w])
    case (throws e w1)
    with thr [of w1 e] fr show ?thesis
      by (simp add: bind_def)
  next
    case (returns v w1)
    with fr have fr1: "frame w1 = (win, ls, rs)" by simp
    show ?thesis
    proof (cases "\<exists>p. v = Promise p")
      case True
      then obtain p where v: "v = Promise p" ..
      from fr1 have "frame (w1\<lparr>reactions := reactions w1 @ [(p, r)]\<rparr>) = (win, ls, rs @ [(p, r)])"
        by (simp add: frame_def)
      from alwaysE [OF ok [of p] this] returns v show ?thesis
        by (simp add: bind_def promise_catch_def prepend_prepend)
    next
      case False
      then have n: "\<forall>p. v \<noteq> Promise p" by simp
      then have pc: "promise_catch c v r w1 = method_call c v ''catch'' Preloaded_catch w1"
        by (cases v) (simp_all add: promise_catch_def)
      show ?thesis
        using not_debugMemory_member(3)
      proof (cases rule: method_call_outcomes [where c = c and v = v
            and k = Preloaded_catch and w = w1])
        case call: (returns v' w2)
        with fr1 have "frame w2 = (win, ls, rs)" by simp
        from alwaysE [OF other [OF n, of v'] this] returns pc call show ?thesis
          by (simp add: bind_def prepend_prepend)
      next
        case call: (throws e w2)
        with fr1 have "frame w2 = (win, ls, rs)" by simp
        from other_thr [OF n this, of e] returns pc call show ?thesis
          by (simp add: bind_def prepend_prepend)
      next
        case type_error
        with nop [OF n fr1] returns pc show ?thesis
          by (simp add: bind_def prepend_prepend)
      qed
    qed
  qed
qed

lemma always_performance_report:
  fixes c :: "('s, 'n::minus) environment"
  assumes none: "navigation_entries c = [] \<Longrightarrow>
      always fr (acc @ [Performance_getEntriesByType ''navigation'']) (block sts) P"
    and some: "\<And>e es. navigation_entries c = e # es \<Longrightarrow>
      always fr (acc @
        [Performance_getEntriesByType ''navigation'',
         Console_log Msg_performance_metrics,
         Console_log (Msg_DOMContentLoaded (domContentLoadedEventEnd e - domContentLoadedEventStart e)),
         Console_log (Msg_Load_Complete (loadEventEnd e - loadEventStart e)),
         Console_log (Msg_DNS_Lookup (domainLookupEnd e - domainLookupStart e)),
         Console_log (Msg_TCP_Connect (connectEnd e - connectStart e))]) (block sts) P"
  shows "always fr acc (block (performance_report c # sts)) P"
  unfolding always_def
proof (intro allI impI)
  fix w :: "'s world"
  assume fr: "frame w = fr"
  show "P (prepend acc (block (performance_report c # sts) w))"
  proof (cases "navigation_entries c")
    case Nil
    from alwaysE [OF none [OF Nil] fr] Nil show ?thesis
      by (simp add: bind_def performance_report_def prepend_prepend)
  next
    case (Cons e es)
    from alwaysE [OF some [OF Cons] fr] Cons show ?thesis
      by (simp add: bind_def performance_report_def prepend_prepend console_log_def emit_def
          Let_def)
  qed
qed

lemmas always_rules = always_nil always_call always_bind_call always_app_use always_app_mount
  always_property_assign always_emit always_console_log always_if_then
  always_block_Cons always_block_Nil always_try_ws always_try_mo always_add_listener
  always_window_assign always_defineProperty always_call_catch always_performance_report

lemmas run_defs = completion_of_def events_of_def world_of_def invocations_def

lemmas eval_defs = unload_handler_def bind_def try_catch_def call_def await_import_def
  console_log_def console_error_def emit_def if_then_def type_error_def method_call_def
  sample_env_def sample_page_def sample_app_def sample_instance_def

lemmas main_eval_defs = main_def performance_report_def add_event_listener_def
  window_assign_def object_defineProperty_def set_property_def define_property_def
  perf_tools_descriptor_def is_accessor_descriptor_def is_data_descriptor_def new_property_def
  or_else_def promise_catch_def property_assign_def Let_def


section \<open>The unload handler\<close>

text \<open>Every run of the handler goes through the steps of its statements in the order of
  the source and stops only inside them.\<close>

lemma unload_handler_prefix:
  fixes c :: "('s, 'n) environment"
  shows "(\<lambda>x. prefix (invocations (events_of x)) (statement_steps isDev (events_of x)))
         (unload_handler c isDev w)"
  unfolding unload_handler_def
  apply (rule alwaysD)
  apply (intro always_rules)
                      apply (simp_all add: run_defs statement_steps_def network_steps_def
      middle_steps_def optimizer_steps_def dev_steps_def)
  done

text \<open>A run in which no unprotected call throws and no import stays pending executes
  every statement.\<close>

lemma unload_handler_all_statements:
  fixes c :: "('s, 'n) environment"
  shows "(\<lambda>x. filter unprotected_failure (events_of x) = [] \<longrightarrow>
           completion_of x = Normal Undefined \<and>
           invocations (events_of x) = statement_steps isDev (events_of x))
         (unload_handler c isDev w)"
  unfolding unload_handler_def
  apply (rule alwaysD)
  apply (intro always_rules)
                      apply (simp_all add: run_defs statement_steps_def network_steps_def
      middle_steps_def optimizer_steps_def dev_steps_def unprotected_calls_def)
  done

text \<open>A run in which nothing fails makes every step.\<close>

lemma unload_handler_no_failure:
  fixes c :: "('s, 'n) environment"
  shows "(\<lambda>x. filter failed (events_of x) = [] \<longrightarrow>
           completion_of x = Normal Undefined \<and>
           invocations (events_of x) = take (if isDev then 13 else 8) unload_sequence)
         (unload_handler c isDev w)"
  unfolding unload_handler_def
  apply (rule alwaysD)
  apply (intro always_rules)
                      apply (simp_all add: run_defs unload_sequence_def)
  done

text \<open>An import that never settles is the last thing the handler does.\<close>

lemma unload_handler_pending:
  fixes c :: "('s, 'n) environment"
  shows "(\<lambda>x. Import m Pending \<in> set (events_of x) \<longrightarrow>
           completion_of x = Suspended \<and> last (events_of x) = Import m Pending)
         (unload_handler c isDev w)"
  unfolding unload_handler_def
  apply (rule alwaysD)
  apply (intro always_rules)
                      apply (simp_all add: run_defs)
  done




text \<open>The calls of the development block.\<close>

lemma unload_handler_dev_steps_prefix:
  fixes c :: "('s, 'n) environment"
  shows "(\<lambda>x. prefix (filter is_dev_step (invocations (events_of x))) (dev_steps isDev))
         (unload_handler c isDev w)"
  unfolding unload_handler_def
  apply (rule alwaysD)
  apply (intro always_rules)
                      apply (simp_all add: run_defs is_dev_step_def dev_steps_def)
  done

lemma unload_handler_dev_steps:
  fixes c :: "('s, 'n) environment"
  shows "(\<lambda>x. filter unprotected_failure (events_of x) = [] \<longrightarrow>
           filter is_dev_step (invocations (events_of x)) = dev_steps isDev)
         (unload_handler c isDev w)"
  unfolding unload_handler_def
  apply (rule alwaysD)
  apply (intro always_rules)
                      apply (simp_all add: run_defs is_dev_step_def dev_steps_def
      unprotected_calls_def)
  done


section \<open>The module body\<close>

subsection \<open>A property that is neither writable nor configurable\<close>

lemma locked_after_attempt:
  assumes "obj n = Some (Data v False en False)"
  shows "after_attempt obj a n = Some (Data v False en False)"
proof (cases a)
  case (Assign n' v')
  with assms show ?thesis
    by (cases "n' = n")
      (auto simp: set_property_def split: option.splits property.splits)
next
  case (DefineProperty n' d)
  show ?thesis
  proof (cases "n' = n")
    case True
    with assms DefineProperty show ?thesis
      by (cases "d_value d"; cases "d_writable d"; cases "d_enumerable d";
          cases "d_configurable d")
        (auto simp: define_property_def or_else_def is_accessor_descriptor_def
          is_data_descriptor_def)
  next
    case False
    with assms DefineProperty show ?thesis
      by (auto simp: define_property_def split: option.splits)
  qed
next
  case (Delete n')
  with assms show ?thesis
    by (cases "n' = n") (auto simp: delete_property_def split: option.splits)
qed

lemma locked_after_attempts:
  "obj n = Some (Data v False en False) \<Longrightarrow>
   after_attempts obj attempts n = Some (Data v False en False)"
  unfolding after_attempts_def
  by (induction attempts arbitrary: obj) (simp_all add: locked_after_attempt)

text \<open>Whatever the object held before, a definition with the descriptor of line 161 that
  succeeds leaves a data property with the tools as its value, not writable and not
  configurable.\<close>

lemma perf_tools_defined:
  assumes "define_property obj n perf_tools_descriptor = Inr obj'"
  shows "\<exists>en. obj' n = Some (Data PerformanceTools_object False en False)"
proof (cases "obj n")
  case None
  with assms show ?thesis
    by (auto simp: define_property_def perf_tools_descriptor_def is_accessor_descriptor_def
        is_data_descriptor_def new_property_def or_else_def)
next
  case (Some p)
  with assms show ?thesis
    by (cases p)
      (auto simp: define_property_def perf_tools_descriptor_def is_accessor_descriptor_def
        is_data_descriptor_def or_else_def split: if_splits)
qed

lemma perf_tools_flags:
  "define_property obj n perf_tools_descriptor = Inr obj' \<Longrightarrow> flags (obj' n) = Some (False, False)"
  by (drule perf_tools_defined) auto

lemma perf_tools_value:
  "define_property obj n perf_tools_descriptor = Inr obj' \<Longrightarrow>
   get_property obj' n = PerformanceTools_object"
  by (drule perf_tools_defined) (auto simp: get_property_def)

lemma perf_tools_stays:
  assumes "define_property obj n perf_tools_descriptor = Inr obj'"
  shows "after_attempts obj' attempts n = obj' n"
    and "get_property (after_attempts obj' attempts) n = PerformanceTools_object"
proof -
  from perf_tools_defined [OF assms]
  obtain en where p: "obj' n = Some (Data PerformanceTools_object False en False)" ..
  from p
  have a: "after_attempts obj' attempts n = Some (Data PerformanceTools_object False en False)"
    by (rule locked_after_attempts)
  with p show "after_attempts obj' attempts n = obj' n" by simp
  from a show "get_property (after_attempts obj' attempts) n = PerformanceTools_object"
    by (simp add: get_property_def)
qed

lemma set_property_fresh:
  "obj n = None \<Longrightarrow> set_property obj n v = Inr (obj(n \<mapsto> Data v True True True))"
  by (simp add: set_property_def)

lemma define_property_other:
  "define_property obj n d = Inr obj' \<Longrightarrow> n' \<noteq> n \<Longrightarrow> obj' n' = obj n'"
  by (auto simp: define_property_def split: option.splits if_splits)

lemma define_keeps_debugMemory:
  "define_property obj ''__PERF_TOOLS__'' d = Inr obj' \<Longrightarrow>
   obj' ''debugMemory'' = obj ''debugMemory''"
  by (drule define_property_other [where n' = "''debugMemory''"]) simp_all

subsection \<open>Runs of the module body\<close>

text \<open>A run of the module body completes exactly when nothing in it fails.\<close>

lemma main_completes:
  fixes c :: "('s, 'n::minus) environment"
  shows "(\<lambda>x. (completion_of x = Normal Undefined) = (filter failed (events_of x) = []))
         (main c isDev w)"
  unfolding main_def
  apply (rule alwaysD)
  apply (intro always_rules)
                      apply (simp_all add: run_defs)
  done

text \<open>The calls of \<open>memoryLeakDetector.startMonitoring\<close>.\<close>

lemma main_leak_detector:
  fixes c :: "('s, 'n::minus) environment"
  shows "(\<lambda>x. prefix (leak_detector_intervals (events_of x)) [if isDev then 15000 else 30000] \<and>
           (filter (returned StoreManager_initialize) (events_of x) \<noteq> [] \<longrightarrow>
              leak_detector_intervals (events_of x) = [if isDev then 15000 else 30000]) \<and>
           (filter (returned StoreManager_initialize) (events_of x) = [] \<longrightarrow>
              leak_detector_intervals (events_of x) = []) \<and>
           (completion_of x = Normal Undefined \<longrightarrow>
              leak_detector_intervals (events_of x) = [if isDev then 15000 else 30000]))
         (main c isDev w)"
  unfolding main_def
  apply (rule alwaysD)
  apply (intro always_rules)
                      apply (simp_all add: run_defs leak_detector_intervals_def)
  done

text \<open>The calls that exist in development mode only.\<close>

lemma main_no_dev_monitoring:
  fixes c :: "('s, 'n::minus) environment"
  shows "(\<lambda>x. filter dev_monitoring_call (events_of x) = []) (main c False w)"
  unfolding main_def
  apply (rule alwaysD)
  apply (intro always_rules)
                      apply (simp_all add: run_defs)
  done

lemma unload_handler_no_dev_monitoring:
  fixes c :: "('s, 'n) environment"
  shows "(\<lambda>x. filter dev_monitoring_call (events_of x) = []) (unload_handler c isDev w)"
  unfolding unload_handler_def
  apply (rule alwaysD)
  apply (intro always_rules)
                      apply (simp_all add: run_defs)
  done

text \<open>The performance report.\<close>

lemma performance_report_run:
  fixes c :: "('s, 'n::minus) environment"
  shows "performance_report c w =
     (Normal Undefined, w,
      Performance_getEntriesByType ''navigation'' #
      (case navigation_entries c of
         [] \<Rightarrow> []
       | e # es \<Rightarrow>
          [Console_log Msg_performance_metrics,
           Console_log (Msg_DOMContentLoaded
             (domContentLoadedEventEnd e - domContentLoadedEventStart e)),
           Console_log (Msg_Load_Complete (loadEventEnd e - loadEventStart e)),
           Console_log (Msg_DNS_Lookup (domainLookupEnd e - domainLookupStart e)),
           Console_log (Msg_TCP_Connect (connectEnd e - connectStart e))]))"
  by (cases "navigation_entries c")
    (simp_all add: performance_report_def bind_def console_log_def emit_def Let_def)

lemma main_report_after_mount:
  fixes c :: "('s, 'n::minus) environment"
  shows "(\<lambda>x. (filter (returned (App_mount ''#app'')) (events_of x) \<noteq> [] \<longrightarrow>
              prefix
                (Performance_getEntriesByType ''navigation'' #
                 (case navigation_entries c of
                    [] \<Rightarrow> []
                  | e # es \<Rightarrow>
                     [Console_log Msg_performance_metrics,
                      Console_log (Msg_DOMContentLoaded
                        (domContentLoadedEventEnd e - domContentLoadedEventStart e)),
                      Console_log (Msg_Load_Complete (loadEventEnd e - loadEventStart e)),
                      Console_log (Msg_DNS_Lookup (domainLookupEnd e - domainLookupStart e)),
                      Console_log (Msg_TCP_Connect (connectEnd e - connectStart e))]))
                (events_after is_mount (events_of x))) \<and>
           (filter (returned (App_mount ''#app'')) (events_of x) = [] \<longrightarrow>
              filter is_perf_read (events_of x) = []) \<and>
           length (filter is_perf_read (events_of x)) \<le> 1)
         (main c isDev w)"
  unfolding main_def
  apply (rule alwaysD)
  apply (intro always_rules)
                      apply (simp_all add: run_defs events_after_def)
  done

text \<open>What the module body does to \<open>window\<close>.\<close>

lemma main_window_dev:
  fixes c :: "('s, 'n::minus) environment"
  shows "(\<lambda>x. completion_of x = Normal Undefined \<longrightarrow>
           filter is_defineProperty (events_of x) = [Object_defineProperty ''__PERF_TOOLS__''] \<and>
           (\<exists>obj. define_property obj ''__PERF_TOOLS__'' perf_tools_descriptor =
              Inr (window (world_of x))))
         (main c True w)"
  unfolding main_def
  apply (rule alwaysD)
  apply (intro always_rules)
                      apply (simp_all add: run_defs frame_def)
     apply blast+
  done

lemma main_debugMemory_dev:
  fixes c :: "('s, 'n::minus) environment"
  shows "(\<lambda>x. completion_of x = Normal Undefined \<longrightarrow> window w ''debugMemory'' = None \<longrightarrow>
           window (world_of x) ''debugMemory'' = Some (Data DebugMemory_object True True True))
         (main c True w)"
  unfolding main_def
  apply (rule alwaysD)
  apply (intro always_rules)
                      apply (simp_all add: run_defs frame_def)
     apply (auto simp add: set_property_fresh dest!: define_keeps_debugMemory)
  done

lemma main_defineProperty_once:
  fixes c :: "('s, 'n::minus) environment"
  shows "(\<lambda>x. prefix (filter is_defineProperty (events_of x))
           (if isDev then [Object_defineProperty ''__PERF_TOOLS__''] else []))
         (main c isDev w)"
  unfolding main_def
  apply (rule alwaysD)
  apply (intro always_rules)
                      apply (simp_all add: run_defs)
  done

lemma main_window_prod:
  fixes c :: "('s, 'n::minus) environment"
  shows "(\<lambda>x. window (world_of x) = window w) (main c False w)"
  unfolding main_def
  apply (rule alwaysD)
  apply (intro always_rules)
                      apply (simp_all add: run_defs frame_def)
  done

text \<open>Line 95, when the promise rejects.\<close>

lemma main_preload_rejected:
  fixes c :: "('s, 'n::minus) environment"
  shows "(\<lambda>x.
        Call (ComponentPreloader_preloadComponent ''HomeView'') (Returns (Promise (Rejects e)))
          \<in> set (events_of x) \<longrightarrow>
        (run_reactions (reactions (world_of x)) :: 'n event list) =
          run_reactions (reactions w) @ [Console_error None e] \<and>
        prefix
          [Console_log Msg_tools_status,
           Console_log Msg_status_leak_detection,
           Console_log Msg_status_memory_monitor,
           Console_log Msg_status_preloader,
           Console_log Msg_status_bundle_analyzer,
           Console_log Msg_status_code_splitting,
           Console_log Msg_status_event_listeners]
          (events_after is_preload (events_of x)) \<and>
        (filter failed (events_of x) = [] \<longrightarrow>
           completion_of x = Normal Undefined \<and>
           Invoke (App_mount ''#app'') \<in>
             set (invocations (events_after is_preload (events_of x))) \<and>
           Performance_getEntriesByType ''navigation'' \<in>
             set (events_after is_preload (events_of x)) \<and>
           Assign_errorHandler \<in> set (events_after is_preload (events_of x))))
      (main c True w)"
  unfolding main_def
  apply (rule alwaysD)
  apply (intro always_rules)
                      apply (auto simp add: run_defs frame_def events_after_def run_reactions_def)
  done


section \<open>The claims about the unload handler\<close>

text \<open>
  Claim C1, as the specification states it: for every firing of \<open>beforeunload\<close> the handler
  invokes its cleanup steps in the declared order: the network-service singleton, the leak
  monitoring, the WebSocket resources, the stores, the memory-optimizer singleton and, in
  development mode only, the memory monitor, the component preloader, the event listener
  tracking and the bundle report.

  This fails of a firing in which a call outside the \<open>try\<close> blocks throws. In
  development mode, on a page whose leak detector is running, let \<open>webSocketCleaner.cleanupAll\<close>
  throw: the handler loads the network service, destroys its instance, stops the leak
  monitoring, makes the call that throws, and invokes nothing more. The stores, the memory
  optimizer and the four development steps of the list are never reached.
\<close>

theorem unload_handler_declared_order_counterexample:
  "invocations (events_of (unload_handler
      (sample_env [(WebSocketCleaner_cleanupAll, Throws (Thrown ''cleaner failed''))] [] [])
      True (sample_page True))) =
     [Load Websocket_service,
      Invoke WebSocketService_destroyInstance,
      Invoke MemoryLeakDetector_stopMonitoring,
      Invoke WebSocketCleaner_cleanupAll] \<and>
   filter in_spec_order (invocations (events_of (unload_handler
      (sample_env [(WebSocketCleaner_cleanupAll, Throws (Thrown ''cleaner failed''))] [] [])
      True (sample_page True)))) \<noteq> spec_unload_order True \<and>
   completion_of (unload_handler
      (sample_env [(WebSocketCleaner_cleanupAll, Throws (Thrown ''cleaner failed''))] [] [])
      True (sample_page True)) = Abrupt (Thrown ''cleaner failed'')"
  by (simp add: eval_defs run_defs in_spec_order_def spec_unload_order_def)

text \<open>
  Claim C1, amended. In every firing the handler goes through its statements in the
  declared order and stops only at a call outside the \<open>try\<close> blocks that throws or at an
  import that never settles. In every firing in which no such call throws and no import
  stays pending, the handler executes every statement in the declared order: the
  network-service step, \<open>memoryLeakDetector.stopMonitoring\<close>, \<open>webSocketCleaner.cleanupAll\<close>,
  \<open>StoreCleaner.cleanupAll\<close>, the memory-optimizer step and, in development mode only, the
  calls of the development block; a step inside a \<open>try\<close> block goes as far as its own first
  failure. In every firing in which nothing fails, the steps invoked are exactly those of the
  declared order, and those that the specification lists are invoked in the order of its
  list. An awaited import that never settles is the last thing the handler does: no later
  statement runs. All this holds from every state of the collaborators, so also whether or
  not the leak detector is running.

  \<open>statement_steps\<close> gives, for the failures that the run has seen inside the \<open>try\<close>
  blocks, the steps of all statements in the order of the source.
\<close>

theorem unload_handler_declared_order:
  fixes c :: "('s, 'n) environment"
  shows
    "prefix (invocations (events_of (unload_handler c isDev w)))
       (statement_steps isDev (events_of (unload_handler c isDev w))) \<and>
     (filter unprotected_failure (events_of (unload_handler c isDev w)) = [] \<longrightarrow>
        completion_of (unload_handler c isDev w) = Normal Undefined \<and>
        invocations (events_of (unload_handler c isDev w)) =
          statement_steps isDev (events_of (unload_handler c isDev w))) \<and>
     (filter failed (events_of (unload_handler c isDev w)) = [] \<longrightarrow>
        invocations (events_of (unload_handler c isDev w)) =
          take (if isDev then 13 else 8) unload_sequence \<and>
        filter in_spec_order (invocations (events_of (unload_handler c isDev w))) =
          spec_unload_order isDev) \<and>
     (Import m Pending \<in> set (events_of (unload_handler c isDev w)) \<longrightarrow>
        completion_of (unload_handler c isDev w) = Suspended \<and>
        last (events_of (unload_handler c isDev w)) = Import m Pending)"
proof -
  have "filter in_spec_order (take (if isDev then 13 else 8) unload_sequence) =
      spec_unload_order isDev"
    by (simp add: in_spec_order_def spec_unload_order_def unload_sequence_def)
  with unload_handler_prefix [where c = c and isDev = isDev and w = w]
    unload_handler_all_statements [where c = c and isDev = isDev and w = w]
    unload_handler_no_failure [where c = c and isDev = isDev and w = w]
    unload_handler_pending [where c = c and isDev = isDev and w = w and m = m]
  show ?thesis by simp
qed

text \<open>Three firings on the sample page in development mode, in each of which the leak
  detector is running. In the first the import of the network service rejects, which is
  caught: \<open>destroyInstance\<close> is not called and every other step is made. In the second
  nothing fails. In the third the import of the memory optimizer never settles.\<close>

theorem unload_handler_declared_order_witness:
  "filter unprotected_failure (events_of (unload_handler
      (sample_env [] [(Websocket_service, Rejects (Thrown ''offline''))] [])
      True (sample_page True))) = [] \<and>
   invocations (events_of (unload_handler
      (sample_env [] [(Websocket_service, Rejects (Thrown ''offline''))] [])
      True (sample_page True))) =
     [Load Websocket_service,
      Invoke MemoryLeakDetector_stopMonitoring,
      Invoke WebSocketCleaner_cleanupAll,
      Invoke StoreCleaner_cleanupAll,
      Load Memory_optimization,
      Invoke MemoryOptimizer_getInstance,
      Invoke MemoryOptimizer_cleanup,
      Invoke MemoryMonitor_stopMonitoring,
      Invoke ComponentPreloader_destroy,
      Invoke EventListenerManager_cleanup,
      Invoke CodeSplittingManager_cleanup,
      Invoke BundleAnalyzer_printReport] \<and>
   filter failed (events_of (unload_handler (sample_env [] [] []) True (sample_page True))) =
     [] \<and>
   filter in_spec_order (invocations (events_of (unload_handler
      (sample_env [] [] []) True (sample_page True)))) = spec_unload_order True \<and>
   Import Memory_optimization Pending \<in> set (events_of (unload_handler
      (sample_env [] [(Memory_optimization, Pending)] []) True (sample_page True))) \<and>
   last (events_of (unload_handler
      (sample_env [] [(Memory_optimization, Pending)] []) True (sample_page True))) =
     Import Memory_optimization Pending"
proof -
  have a: "events_of (unload_handler
      (sample_env [] [(Websocket_service, Rejects (Thrown ''offline''))] [])
      True (sample_page True)) =
     [Console_log Msg_app_closing,
      Import Websocket_service (Rejects (Thrown ''offline'')),
      Console_error (Some WebSocketService_cleanup_failed) (Thrown ''offline''),
      Call MemoryLeakDetector_stopMonitoring (Returns Undefined),
      Call WebSocketCleaner_cleanupAll (Returns Undefined),
      Call StoreCleaner_cleanupAll (Returns Undefined),
      Import Memory_optimization (Fulfils (sample_module Memory_optimization)),
      Call MemoryOptimizer_getInstance (Returns sample_instance),
      Call MemoryOptimizer_cleanup (Returns Undefined),
      Call MemoryMonitor_stopMonitoring (Returns Undefined),
      Call ComponentPreloader_destroy (Returns Undefined),
      Call EventListenerManager_cleanup (Returns Undefined),
      Call CodeSplittingManager_cleanup (Returns Undefined),
      Call BundleAnalyzer_printReport (Returns Undefined)]"
    by (simp add: eval_defs events_of_def)
  have b: "events_of (unload_handler (sample_env [] [] []) True (sample_page True)) =
     [Console_log Msg_app_closing,
      Import Websocket_service (Fulfils (sample_module Websocket_service)),
      Call WebSocketService_destroyInstance (Returns Undefined),
      Call MemoryLeakDetector_stopMonitoring (Returns Undefined),
      Call WebSocketCleaner_cleanupAll (Returns Undefined),
      Call StoreCleaner_cleanupAll (Returns Undefined),
      Import Memory_optimization (Fulfils (sample_module Memory_optimization)),
      Call MemoryOptimizer_getInstance (Returns sample_instance),
      Call MemoryOptimizer_cleanup (Returns Undefined),
      Call MemoryMonitor_stopMonitoring (Returns Undefined),
      Call ComponentPreloader_destroy (Returns Undefined),
      Call EventListenerManager_cleanup (Returns Undefined),
      Call CodeSplittingManager_cleanup (Returns Undefined),
      Call BundleAnalyzer_printReport (Returns Undefined)]"
    by (simp add: eval_defs events_of_def)
  have c: "events_of (unload_handler
      (sample_env [] [(Memory_optimization, Pending)] []) True (sample_page True)) =
     [Console_log Msg_app_closing,
      Import Websocket_service (Fulfils (sample_module Websocket_service)),
      Call WebSocketService_destroyInstance (Returns Undefined),
      Call MemoryLeakDetector_stopMonitoring (Returns Undefined),
      Call WebSocketCleaner_cleanupAll (Returns Undefined),
      Call StoreCleaner_cleanupAll (Returns Undefined),
      Import Memory_optimization Pending]"
    by (simp add: eval_defs events_of_def)
  have a1: "filter unprotected_failure (events_of (unload_handler
      (sample_env [] [(Websocket_service, Rejects (Thrown ''offline''))] [])
      True (sample_page True))) = []"
    by (simp add: a)
  have a2: "statement_steps True (events_of (unload_handler
      (sample_env [] [(Websocket_service, Rejects (Thrown ''offline''))] [])
      True (sample_page True))) =
     [Load Websocket_service,
      Invoke MemoryLeakDetector_stopMonitoring,
      Invoke WebSocketCleaner_cleanupAll,
      Invoke StoreCleaner_cleanupAll,
      Load Memory_optimization,
      Invoke MemoryOptimizer_getInstance,
      Invoke MemoryOptimizer_cleanup,
      Invoke MemoryMonitor_stopMonitoring,
      Invoke ComponentPreloader_destroy,
      Invoke EventListenerManager_cleanup,
      Invoke CodeSplittingManager_cleanup,
      Invoke BundleAnalyzer_printReport]"
    by (simp add: a statement_steps_def network_steps_def middle_steps_def optimizer_steps_def
        dev_steps_def)
  have b1: "filter failed (events_of (unload_handler (sample_env [] [] []) True
      (sample_page True))) = []"
    by (simp add: b)
  have c1: "Import Memory_optimization Pending \<in> set (events_of (unload_handler
      (sample_env [] [(Memory_optimization, Pending)] []) True (sample_page True)))"
    by (simp add: c)
  from a1 a2 b1 c1
    unload_handler_declared_order [of
      "sample_env [] [(Websocket_service, Rejects (Thrown ''offline''))] []" True
      "sample_page True" Memory_optimization]
    unload_handler_declared_order [of "sample_env [] [] []" True "sample_page True"
      Memory_optimization]
    unload_handler_declared_order [of "sample_env [] [(Memory_optimization, Pending)] []" True
      "sample_page True" Memory_optimization]
  show ?thesis by (simp add: in_spec_order_def spec_unload_order_def unload_sequence_def)
qed



text \<open>
  Claim C3. The steps of the handler that are not dynamically imported (stopping the leak
  monitoring, \<open>cleanupAll\<close> of the WebSocket cleaner, \<open>cleanupAll\<close> of the store cleaner and
  the calls of the development block) have no error isolation: if one of them throws, the
  remaining steps of the handler do not execute.

  When one of these calls throws \<open>e\<close>, the throw is the last event of the run, the promise of
  the handler rejects with \<open>e\<close>, and no step that the source lists after the call is invoked.
\<close>

theorem unload_handler_unprotected_throw_aborts:
  fixes c :: "('s, 'n) environment"
  assumes "k \<in> set unprotected_calls"
    and "Call k (Throws e) \<in> set (events_of (unload_handler c isDev w))"
  shows "completion_of (unload_handler c isDev w) = Abrupt e \<and>
         last (events_of (unload_handler c isDev w)) = Call k (Throws e) \<and>
         filter (\<lambda>i. i \<in> set (steps_after k))
           (invocations (events_of (unload_handler c isDev w))) = []"
proof -
  have "(\<lambda>x. k \<in> set unprotected_calls \<longrightarrow> Call k (Throws e) \<in> set (events_of x) \<longrightarrow>
          completion_of x = Abrupt e \<and> last (events_of x) = Call k (Throws e) \<and>
          filter (\<lambda>i. i \<in> set (steps_after k)) (invocations (events_of x)) = [])
        (unload_handler c isDev w)"
    unfolding unload_handler_def
    apply (rule alwaysD)
    apply (intro always_rules)
                        apply (auto simp add: run_defs unprotected_calls_def steps_after_def
        unload_sequence_def)
    done
  with assms show ?thesis by simp
qed

text \<open>The sample page in development mode, where \<open>StoreCleaner.cleanupAll\<close> throws: the
  memory optimizer and the development block are never reached.\<close>

theorem unload_handler_unprotected_throw_aborts_witness:
  "StoreCleaner_cleanupAll \<in> set unprotected_calls \<and>
   events_of (unload_handler
      (sample_env [(StoreCleaner_cleanupAll, Throws (Thrown ''store failed''))] [] [])
      True (sample_page True)) =
     [Console_log Msg_app_closing,
      Import Websocket_service (Fulfils (sample_module Websocket_service)),
      Call WebSocketService_destroyInstance (Returns Undefined),
      Call MemoryLeakDetector_stopMonitoring (Returns Undefined),
      Call WebSocketCleaner_cleanupAll (Returns Undefined),
      Call StoreCleaner_cleanupAll (Throws (Thrown ''store failed''))] \<and>
   completion_of (unload_handler
      (sample_env [(StoreCleaner_cleanupAll, Throws (Thrown ''store failed''))] [] [])
      True (sample_page True)) = Abrupt (Thrown ''store failed'') \<and>
   filter (\<lambda>i. i \<in> set (steps_after StoreCleaner_cleanupAll))
     (invocations (events_of (unload_handler
        (sample_env [(StoreCleaner_cleanupAll, Throws (Thrown ''store failed''))] [] [])
        True (sample_page True)))) = []"
proof -
  have ev: "events_of (unload_handler
      (sample_env [(StoreCleaner_cleanupAll, Throws (Thrown ''store failed''))] [] [])
      True (sample_page True)) =
     [Console_log Msg_app_closing,
      Import Websocket_service (Fulfils (sample_module Websocket_service)),
      Call WebSocketService_destroyInstance (Returns Undefined),
      Call MemoryLeakDetector_stopMonitoring (Returns Undefined),
      Call WebSocketCleaner_cleanupAll (Returns Undefined),
      Call StoreCleaner_cleanupAll (Throws (Thrown ''store failed''))]"
    by (simp add: eval_defs events_of_def)
  have k: "StoreCleaner_cleanupAll \<in> set unprotected_calls"
    by (simp add: unprotected_calls_def)
  have t: "Call StoreCleaner_cleanupAll (Throws (Thrown ''store failed'')) \<in> set (events_of
      (unload_handler
        (sample_env [(StoreCleaner_cleanupAll, Throws (Thrown ''store failed''))] [] [])
        True (sample_page True)))"
    by (simp add: ev)
  from unload_handler_unprotected_throw_aborts [OF k t] k ev show ?thesis
    by simp
qed

text \<open>
  Claim C9. In development mode the development branch of the handler also invokes
  \<open>codeSplittingManager.cleanup()\<close>, after \<open>eventListenerManager.cleanup()\<close> and before
  \<open>bundleAnalyzer.printReport()\<close>; the unload sequence of the specification does not list
  this step.

  In every run in development mode the calls of the development block that are made form a
  beginning of the list \<open>memoryMonitor.stopMonitoring\<close>, \<open>componentPreloader.destroy\<close>,
  \<open>eventListenerManager.cleanup\<close>, \<open>codeSplittingManager.cleanup\<close>,
  \<open>bundleAnalyzer.printReport\<close>: so \<open>codeSplittingManager.cleanup\<close> is never called before
  \<open>eventListenerManager.cleanup\<close> and never after \<open>bundleAnalyzer.printReport\<close>. In every
  such run in which no call outside the \<open>try\<close> blocks throws and no import stays pending,
  whatever fails inside the \<open>try\<close> blocks, all five are made. In production mode none of
  them is made. The list of the specification does not hold the step.
\<close>

theorem unload_handler_code_splitting_cleanup:
  fixes c :: "('s, 'n) environment"
  shows
    "prefix (filter is_dev_step (invocations (events_of (unload_handler c True w))))
       [Invoke MemoryMonitor_stopMonitoring,
        Invoke ComponentPreloader_destroy,
        Invoke EventListenerManager_cleanup,
        Invoke CodeSplittingManager_cleanup,
        Invoke BundleAnalyzer_printReport] \<and>
     (filter unprotected_failure (events_of (unload_handler c True w)) = [] \<longrightarrow>
        filter is_dev_step (invocations (events_of (unload_handler c True w))) =
          [Invoke MemoryMonitor_stopMonitoring,
           Invoke ComponentPreloader_destroy,
           Invoke EventListenerManager_cleanup,
           Invoke CodeSplittingManager_cleanup,
           Invoke BundleAnalyzer_printReport]) \<and>
     filter is_dev_step (invocations (events_of (unload_handler c False w))) = [] \<and>
     is_dev_step (Invoke CodeSplittingManager_cleanup) \<and>
     Invoke CodeSplittingManager_cleanup \<notin> set (spec_unload_order True)"
proof -
  have "is_dev_step (Invoke CodeSplittingManager_cleanup)"
    by (simp add: is_dev_step_def dev_steps_def)
  moreover have "Invoke CodeSplittingManager_cleanup \<notin> set (spec_unload_order True)"
    by (simp add: spec_unload_order_def)
  ultimately show ?thesis
    using unload_handler_dev_steps_prefix [where c = c and isDev = True and w = w]
      unload_handler_dev_steps [where c = c and isDev = True and w = w]
      unload_handler_dev_steps_prefix [where c = c and isDev = False and w = w]
    by (simp add: dev_steps_def)
qed

text \<open>The sample page in development mode, in a firing in which both imports reject:
  both failures are caught, and the development block makes its five calls.\<close>

theorem unload_handler_code_splitting_cleanup_witness:
  "filter unprotected_failure (events_of (unload_handler
      (sample_env [] [(Websocket_service, Rejects (Thrown ''offline'')),
                      (Memory_optimization, Rejects (Thrown ''offline''))] [])
      True (sample_page False))) = [] \<and>
   invocations (events_of (unload_handler
      (sample_env [] [(Websocket_service, Rejects (Thrown ''offline'')),
                      (Memory_optimization, Rejects (Thrown ''offline''))] [])
      True (sample_page False))) =
     [Load Websocket_service,
      Invoke MemoryLeakDetector_stopMonitoring,
      Invoke WebSocketCleaner_cleanupAll,
      Invoke StoreCleaner_cleanupAll,
      Load Memory_optimization,
      Invoke MemoryMonitor_stopMonitoring,
      Invoke ComponentPreloader_destroy,
      Invoke EventListenerManager_cleanup,
      Invoke CodeSplittingManager_cleanup,
      Invoke BundleAnalyzer_printReport] \<and>
   filter is_dev_step (invocations (events_of (unload_handler
      (sample_env [] [(Websocket_service, Rejects (Thrown ''offline'')),
                      (Memory_optimization, Rejects (Thrown ''offline''))] [])
      True (sample_page False)))) =
     [Invoke MemoryMonitor_stopMonitoring,
      Invoke ComponentPreloader_destroy,
      Invoke EventListenerManager_cleanup,
      Invoke CodeSplittingManager_cleanup,
      Invoke BundleAnalyzer_printReport]"
proof -
  have ev: "events_of (unload_handler
      (sample_env [] [(Websocket_service, Rejects (Thrown ''offline'')),
                      (Memory_optimization, Rejects (Thrown ''offline''))] [])
      True (sample_page False)) =
     [Console_log Msg_app_closing,
      Import Websocket_service (Rejects (Thrown ''offline'')),
      Console_error (Some WebSocketService_cleanup_failed) (Thrown ''offline''),
      Call MemoryLeakDetector_stopMonitoring (Returns Undefined),
      Call WebSocketCleaner_cleanupAll (Returns Undefined),
      Call StoreCleaner_cleanupAll (Returns Undefined),
      Import Memory_optimization (Rejects (Thrown ''offline'')),
      Console_error (Some MemoryOptimizer_cleanup_failed) (Thrown ''offline''),
      Call MemoryMonitor_stopMonitoring (Returns Undefined),
      Call ComponentPreloader_destroy (Returns Undefined),
      Call EventListenerManager_cleanup (Returns Undefined),
      Call CodeSplittingManager_cleanup (Returns Undefined),
      Call BundleAnalyzer_printReport (Returns Undefined)]"
    by (simp add: eval_defs events_of_def)
  have h: "filter unprotected_failure (events_of (unload_handler
      (sample_env [] [(Websocket_service, Rejects (Thrown ''offline'')),
                      (Memory_optimization, Rejects (Thrown ''offline''))] [])
      True (sample_page False))) = []"
    by (simp add: ev)
  have i: "invocations (events_of (unload_handler
      (sample_env [] [(Websocket_service, Rejects (Thrown ''offline'')),
                      (Memory_optimization, Rejects (Thrown ''offline''))] [])
      True (sample_page False))) =
     [Load Websocket_service,
      Invoke MemoryLeakDetector_stopMonitoring,
      Invoke WebSocketCleaner_cleanupAll,
      Invoke StoreCleaner_cleanupAll,
      Load Memory_optimization,
      Invoke MemoryMonitor_stopMonitoring,
      Invoke ComponentPreloader_destroy,
      Invoke EventListenerManager_cleanup,
      Invoke CodeSplittingManager_cleanup,
      Invoke BundleAnalyzer_printReport]"
    by (simp add: ev invocations_def)
  from h i unload_handler_code_splitting_cleanup [of
      "sample_env [] [(Websocket_service, Rejects (Thrown ''offline'')),
                      (Memory_optimization, Rejects (Thrown ''offline''))] []"
      "sample_page False"]
  show ?thesis by simp
qed


subsection \<open>Runs on the sample page\<close>

lemma sample_main_dev:
  "main (sample_env [] [] [sample_entry]) True (sample_page False) =
     (Normal Undefined,
      \<lparr>ext_state = True,
       window = (\<lambda>name. None)
         (''debugMemory'' \<mapsto> Data DebugMemory_object True True True,
          ''__PERF_TOOLS__'' \<mapsto> Data PerformanceTools_object False False False),
       listeners = [(''beforeunload'', Unload_cleanup True)],
       reactions = [(Fulfils Undefined, Console_error_callback)]\<rparr>,
      [Call CreateApp (Returns sample_app),
       Call UsePinia (Returns Undefined),
       Call (App_use Router) (Returns Undefined),
       Call (App_use I18n) (Returns Undefined),
       Call StoreManager_initialize (Returns Undefined),
       Call (MemoryLeakDetector_startMonitoring 15000) (Returns Undefined),
       AddEventListener ''beforeunload'',
       Assign_window ''debugMemory'',
       Console_log Msg_dev_tools_enabled,
       Call (MemoryMonitor_startMonitoring 15000) (Returns Undefined),
       Call (ComponentPreloader_preloadComponent ''HomeView'')
         (Returns (Promise (Fulfils Undefined))),
       Console_log Msg_tools_status,
       Console_log Msg_status_leak_detection,
       Console_log Msg_status_memory_monitor,
       Console_log Msg_status_preloader,
       Console_log Msg_status_bundle_analyzer,
       Console_log Msg_status_code_splitting,
       Console_log Msg_status_event_listeners,
       Call (App_mount ''#app'') (Returns Undefined),
       Performance_getEntriesByType ''navigation'',
       Console_log Msg_performance_metrics,
       Console_log (Msg_DOMContentLoaded 20),
       Console_log (Msg_Load_Complete 5),
       Console_log (Msg_DNS_Lookup 3),
       Console_log (Msg_TCP_Connect 27),
       Assign_errorHandler,
       Assign_globalProperties_performance,
       Object_defineProperty ''__PERF_TOOLS__'',
       Console_log Msg_perf_tools_mounted])"
  by (simp add: eval_defs main_eval_defs sample_entry_def)

lemma sample_main_prod:
  "main (sample_env [] [] []) False (sample_page False) =
     (Normal Undefined,
      \<lparr>ext_state = True,
       window = (\<lambda>name. None),
       listeners = [(''beforeunload'', Unload_cleanup False)],
       reactions = []\<rparr>,
      [Call CreateApp (Returns sample_app),
       Call UsePinia (Returns Undefined),
       Call (App_use Router) (Returns Undefined),
       Call (App_use I18n) (Returns Undefined),
       Call StoreManager_initialize (Returns Undefined),
       Call (MemoryLeakDetector_startMonitoring 30000) (Returns Undefined),
       AddEventListener ''beforeunload'',
       Call (App_mount ''#app'') (Returns Undefined),
       Performance_getEntriesByType ''navigation'',
       Assign_errorHandler])"
  by (simp add: eval_defs main_eval_defs)

section \<open>The claims about the module body\<close>

text \<open>
  Claim C4. In development mode \<open>window.__PERF_TOOLS__\<close> is defined exactly once, with
  \<open>writable: false\<close> and \<open>configurable: false\<close>, so that once defined it cannot be
  reassigned or reconfigured: after every later attempt the original object of tool
  references is still in place.

  No run of the module body calls \<open>Object.defineProperty\<close> more than once or for another
  name, and a run in production mode never calls it. A run in development mode that
  completes has called it exactly once; after it the property holds the object
  \<open>performanceTools\<close> and is neither writable nor configurable, and after any list of
  assignments, redefinitions and deletions, from anywhere, the property is the same and
  still reads as that object. The last part says the same of any object on which the
  definition of line 161 succeeds, whatever it held before.
\<close>

theorem perf_tools_defined_once_and_locked:
  fixes c :: "('s, 'n::minus) environment"
  shows
    "prefix (filter is_defineProperty (events_of (main c True w)))
       [Object_defineProperty ''__PERF_TOOLS__''] \<and>
     filter is_defineProperty (events_of (main c False w)) = [] \<and>
     (completion_of (main c True w) = Normal Undefined \<longrightarrow>
        filter is_defineProperty (events_of (main c True w)) =
          [Object_defineProperty ''__PERF_TOOLS__''] \<and>
        get_property (window (world_of (main c True w))) ''__PERF_TOOLS__'' =
          PerformanceTools_object \<and>
        flags (window (world_of (main c True w)) ''__PERF_TOOLS__'') = Some (False, False) \<and>
        after_attempts (window (world_of (main c True w))) attempts ''__PERF_TOOLS__'' =
          window (world_of (main c True w)) ''__PERF_TOOLS__'' \<and>
        get_property (after_attempts (window (world_of (main c True w))) attempts)
          ''__PERF_TOOLS__'' = PerformanceTools_object) \<and>
     (define_property obj ''__PERF_TOOLS__'' perf_tools_descriptor = Inr obj' \<longrightarrow>
        flags (obj' ''__PERF_TOOLS__'') = Some (False, False) \<and>
        after_attempts obj' attempts ''__PERF_TOOLS__'' = obj' ''__PERF_TOOLS__'' \<and>
        get_property (after_attempts obj' attempts) ''__PERF_TOOLS__'' =
          PerformanceTools_object)"
proof -
  have once: "prefix (filter is_defineProperty (events_of (main c True w)))
      [Object_defineProperty ''__PERF_TOOLS__'']"
    using main_defineProperty_once [where c = c and isDev = True and w = w] by simp
  have never: "filter is_defineProperty (events_of (main c False w)) = []"
    using main_defineProperty_once [where c = c and isDev = False and w = w] by simp
  have any: "flags (ob' ''__PERF_TOOLS__'') = Some (False, False) \<and>
      after_attempts ob' attempts ''__PERF_TOOLS__'' = ob' ''__PERF_TOOLS__'' \<and>
      get_property (after_attempts ob' attempts) ''__PERF_TOOLS__'' = PerformanceTools_object \<and>
      get_property ob' ''__PERF_TOOLS__'' = PerformanceTools_object"
    if "define_property ob ''__PERF_TOOLS__'' perf_tools_descriptor = Inr ob'" for ob ob'
    using perf_tools_flags [OF that] perf_tools_value [OF that] perf_tools_stays [OF that]
    by simp
  have run: "filter is_defineProperty (events_of (main c True w)) =
        [Object_defineProperty ''__PERF_TOOLS__''] \<and>
      get_property (window (world_of (main c True w))) ''__PERF_TOOLS__'' =
        PerformanceTools_object \<and>
      flags (window (world_of (main c True w)) ''__PERF_TOOLS__'') = Some (False, False) \<and>
      after_attempts (window (world_of (main c True w))) attempts ''__PERF_TOOLS__'' =
        window (world_of (main c True w)) ''__PERF_TOOLS__'' \<and>
      get_property (after_attempts (window (world_of (main c True w))) attempts)
        ''__PERF_TOOLS__'' = PerformanceTools_object"
    if completes: "completion_of (main c True w) = Normal Undefined"
  proof -
    from main_window_dev [where c = c and w = w] completes
    obtain ob where count: "filter is_defineProperty (events_of (main c True w)) =
          [Object_defineProperty ''__PERF_TOOLS__'']"
      and defined: "define_property ob ''__PERF_TOOLS__'' perf_tools_descriptor =
          Inr (window (world_of (main c True w)))"
      by auto
    from any [OF defined] count show ?thesis by simp
  qed
  from once never run any [of obj obj'] show ?thesis by blast
qed

text \<open>The sample page in development mode, and three attempts on \<open>window.__PERF_TOOLS__\<close>
  after the run: an assignment, a redefinition that would make the property writable, and a
  deletion.\<close>

theorem perf_tools_defined_once_and_locked_witness:
  "completion_of (main (sample_env [] [] [sample_entry]) True (sample_page False)) =
     Normal Undefined \<and>
   filter is_defineProperty
     (events_of (main (sample_env [] [] [sample_entry]) True (sample_page False))) =
     [Object_defineProperty ''__PERF_TOOLS__''] \<and>
   get_property
     (after_attempts
        (window (world_of (main (sample_env [] [] [sample_entry]) True (sample_page False))))
        [Assign ''__PERF_TOOLS__'' (Other 1),
         DefineProperty ''__PERF_TOOLS__''
           \<lparr>d_value = Some Undefined, d_writable = Some True, d_get = None, d_set = None,
            d_enumerable = None, d_configurable = Some True\<rparr>,
         Delete ''__PERF_TOOLS__''])
     ''__PERF_TOOLS__'' = PerformanceTools_object \<and>
   define_property (\<lambda>name. None) ''__PERF_TOOLS__'' perf_tools_descriptor =
     Inr ((\<lambda>name. None)(''__PERF_TOOLS__'' \<mapsto> Data PerformanceTools_object False False False))"
proof -
  have d: "completion_of (main (sample_env [] [] [sample_entry]) True (sample_page False)) =
      Normal Undefined"
    by (simp add: sample_main_dev completion_of_def)
  have f: "define_property (\<lambda>name. None) ''__PERF_TOOLS__'' perf_tools_descriptor =
      Inr ((\<lambda>name. None)(''__PERF_TOOLS__'' \<mapsto> Data PerformanceTools_object False False False))"
    by (simp add: define_property_def perf_tools_descriptor_def is_accessor_descriptor_def
        is_data_descriptor_def new_property_def or_else_def)
  from d f
    perf_tools_defined_once_and_locked [where c = "sample_env [] [] [sample_entry]"
      and w = "sample_page False"
      and attempts = "[Assign ''__PERF_TOOLS__'' (Other 1),
        DefineProperty ''__PERF_TOOLS__''
          \<lparr>d_value = Some Undefined, d_writable = Some True, d_get = None, d_set = None,
           d_enumerable = None, d_configurable = Some True\<rparr>,
        Delete ''__PERF_TOOLS__'']"
      and obj = "\<lambda>name. None"
      and obj' = "(\<lambda>name. None)(''__PERF_TOOLS__'' \<mapsto>
        Data PerformanceTools_object False False False)"]
  show ?thesis by simp
qed

text \<open>
  Claim C5. In development mode \<open>window.debugMemory\<close> is defined with exactly three
  callable operations: \<open>checkMemory\<close> forces a check of the leak detector, \<open>getStats\<close>
  returns the current memory statistics, and \<open>cleanupAll\<close> calls \<open>cleanupAll\<close> of the
  WebSocket cleaner and then \<open>cleanupAll\<close> of the store cleaner; in production mode
  \<open>window.debugMemory\<close> is undefined.

  On a page whose \<open>window\<close> has no property \<open>debugMemory\<close> yet, a run in development mode
  that completes leaves the object of line 77 in it. That object has exactly the members
  \<open>checkMemory\<close>, \<open>getStats\<close> and \<open>cleanupAll\<close>: a call of the first is the call of
  \<open>forceCheck\<close>; a call of the second is the call of \<open>getMemoryStats\<close> and returns what
  that returns; a call of the third calls \<open>webSocketCleaner.cleanupAll\<close> and, when that
  returns, \<open>StoreCleaner.cleanupAll\<close>; a call of a member of any other name is a
  \<open>TypeError\<close>. A run in production mode leaves \<open>window\<close> as it was, so the property
  still reads as \<open>undefined\<close>.
\<close>

theorem debugMemory_in_development_only:
  fixes c :: "('s, 'n::minus) environment"
  shows
    "(window w ''debugMemory'' = None \<longrightarrow>
        completion_of (main c True w) = Normal Undefined \<longrightarrow>
        get_property (window (world_of (main c True w))) ''debugMemory'' =
          DebugMemory_object) \<and>
     map fst debugMemory_members = [''checkMemory'', ''getStats'', ''cleanupAll''] \<and>
     method_call c DebugMemory_object ''checkMemory'' k v =
       call c MemoryLeakDetector_forceCheck v \<and>
     method_call c DebugMemory_object ''getStats'' k v =
       call c MemoryLeakDetector_getMemoryStats v \<and>
     (ext c MemoryLeakDetector_getMemoryStats (ext_state v) = (Returns stats, s) \<longrightarrow>
        completion_of (method_call c DebugMemory_object ''getStats'' k v) = Normal stats) \<and>
     events_of (method_call c DebugMemory_object ''cleanupAll'' k v) =
       (case ext c WebSocketCleaner_cleanupAll (ext_state v) of
          (Returns x, s1) \<Rightarrow>
            [Call WebSocketCleaner_cleanupAll (Returns x),
             Call StoreCleaner_cleanupAll (fst (ext c StoreCleaner_cleanupAll s1))]
        | (Throws e, s1) \<Rightarrow> [Call WebSocketCleaner_cleanupAll (Throws e)]) \<and>
     (map_of debugMemory_members name = None \<longrightarrow>
        method_call c DebugMemory_object name k v = type_error name v) \<and>
     window (world_of (main c False w)) = window w \<and>
     (window w ''debugMemory'' = None \<longrightarrow>
        get_property (window (world_of (main c False w))) ''debugMemory'' = Undefined)"
proof -
  have dev: "get_property (window (world_of (main c True w))) ''debugMemory'' =
      DebugMemory_object"
    if "window w ''debugMemory'' = None" "completion_of (main c True w) = Normal Undefined"
    using main_debugMemory_dev [where c = c and w = w] that
    by (simp add: get_property_def)
  have names: "map fst debugMemory_members = [''checkMemory'', ''getStats'', ''cleanupAll'']"
    by (simp add: debugMemory_members_def)
  have check: "method_call c DebugMemory_object ''checkMemory'' k v =
      call c MemoryLeakDetector_forceCheck v"
    by (simp add: method_call_def debugMemory_members_def)
  have stats: "method_call c DebugMemory_object ''getStats'' k v =
      call c MemoryLeakDetector_getMemoryStats v"
    by (simp add: method_call_def debugMemory_members_def)
  have returned: "completion_of (method_call c DebugMemory_object ''getStats'' k v) =
      Normal stats"
    if "ext c MemoryLeakDetector_getMemoryStats (ext_state v) = (Returns stats, s)"
    using that by (simp add: stats call_def completion_of_def)
  have cleanup: "events_of (method_call c DebugMemory_object ''cleanupAll'' k v) =
      (case ext c WebSocketCleaner_cleanupAll (ext_state v) of
         (Returns x, s1) \<Rightarrow>
           [Call WebSocketCleaner_cleanupAll (Returns x),
            Call StoreCleaner_cleanupAll (fst (ext c StoreCleaner_cleanupAll s1))]
       | (Throws e, s1) \<Rightarrow> [Call WebSocketCleaner_cleanupAll (Throws e)])"
  proof -
    obtain r1 s1 where a: "ext c WebSocketCleaner_cleanupAll (ext_state v) = (r1, s1)"
      by (cases "ext c WebSocketCleaner_cleanupAll (ext_state v)")
    obtain r2 s2 where b: "ext c StoreCleaner_cleanupAll s1 = (r2, s2)"
      by (cases "ext c StoreCleaner_cleanupAll s1")
    from a b show ?thesis
      by (cases r1; cases r2)
        (simp_all add: method_call_def debugMemory_members_def bind_def call_def events_of_def)
  qed
  have other: "method_call c DebugMemory_object name k v = type_error name v"
    if "map_of debugMemory_members name = None"
    using that by (simp add: method_call_def)
  have prod: "window (world_of (main c False w)) = window w"
    using main_window_prod [where c = c and w = w] by simp
  from dev names check stats returned cleanup other prod show ?thesis
    by (simp add: get_property_def)
qed

text \<open>The sample page, where \<open>getMemoryStats\<close> returns a value: in development mode
  \<open>window.debugMemory\<close> is the object and \<open>getStats\<close> returns that value; in production
  mode it reads as \<open>undefined\<close>.\<close>

theorem debugMemory_in_development_only_witness:
  "window (sample_page False) ''debugMemory'' = None \<and>
   completion_of (main (sample_env [] [] [sample_entry]) True (sample_page False)) =
     Normal Undefined \<and>
   get_property
     (window (world_of (main (sample_env [] [] [sample_entry]) True (sample_page False))))
     ''debugMemory'' = DebugMemory_object \<and>
   completion_of (method_call
     (sample_env [(MemoryLeakDetector_getMemoryStats, Returns (Other 42))] [] [])
     DebugMemory_object ''getStats'' CreateApp (sample_page True)) = Normal (Other 42) \<and>
   map_of debugMemory_members ''reset'' = None \<and>
   method_call (sample_env [] [] [sample_entry]) DebugMemory_object ''reset'' CreateApp
     (sample_page True) = type_error ''reset'' (sample_page True) \<and>
   get_property
     (window (world_of (main (sample_env [] [] [sample_entry]) False (sample_page False))))
     ''debugMemory'' = Undefined"
proof -
  have f: "window (sample_page False) ''debugMemory'' = None"
    by (simp add: sample_page_def)
  have d: "completion_of (main (sample_env [] [] [sample_entry]) True (sample_page False)) =
      Normal Undefined"
    by (simp add: sample_main_dev completion_of_def)
  have g: "ext (sample_env [(MemoryLeakDetector_getMemoryStats, Returns (Other 42))] [] [])
      MemoryLeakDetector_getMemoryStats (ext_state (sample_page True)) =
      (Returns (Other 42), True)"
    by (simp add: sample_env_def sample_page_def)
  have n: "map_of debugMemory_members ''reset'' = None"
    by (simp add: debugMemory_members_def)
  from f d n
    debugMemory_in_development_only [where c = "sample_env [] [] [sample_entry]"
      and w = "sample_page False" and k = CreateApp and v = "sample_page True"
      and stats = "Other 42" and s = True and name = "''reset''"]
  have a: "get_property
      (window (world_of (main (sample_env [] [] [sample_entry]) True (sample_page False))))
      ''debugMemory'' = DebugMemory_object \<and>
    method_call (sample_env [] [] [sample_entry]) DebugMemory_object ''reset'' CreateApp
      (sample_page True) = type_error ''reset'' (sample_page True) \<and>
    get_property
      (window (world_of (main (sample_env [] [] [sample_entry]) False (sample_page False))))
      ''debugMemory'' = Undefined"
    by (simp add: get_property_def)
  from g
    debugMemory_in_development_only [where
      c = "sample_env [(MemoryLeakDetector_getMemoryStats, Returns (Other 42))] [] []"
      and w = "sample_page False" and k = CreateApp and v = "sample_page True"
      and stats = "Other 42" and s = True and name = "''reset''"]
  have b: "completion_of (method_call
      (sample_env [(MemoryLeakDetector_getMemoryStats, Returns (Other 42))] [] [])
      DebugMemory_object ''getStats'' CreateApp (sample_page True)) = Normal (Other 42)"
    by blast
  from f d n a b show ?thesis by simp
qed


text \<open>
  Claim C6. After the mount the performance report reads the first navigation-timing
  entry. Without an entry it logs no metric and throws nothing. With an entry it logs
  exactly four durations, each the difference of an end field and a start field of the
  entry: DOM content loaded, load complete, DNS lookup and TCP connect; and it changes
  nothing.

  The report completes normally and returns the world as it was in both cases. Without an
  entry its only event is the read of the entries; with an entry the read is followed by the
  heading and the four metric lines. In every run of the module body in which \<open>app.mount\<close>
  has returned, the events right after that call are those of the report; in every run in
  which it has not returned, the entries are not read at all; and no run reads them twice.
  The numbers are of any type with a subtraction, and a metric line stands for the text that
  \<open>toFixed(2)\<close> makes of its number.
\<close>

theorem performance_report_metrics:
  fixes c :: "('s, 'n::minus) environment"
  shows
    "(navigation_entries c = [] \<longrightarrow>
        performance_report c w =
          (Normal Undefined, w, [Performance_getEntriesByType ''navigation''])) \<and>
     (navigation_entries c = e # es \<longrightarrow>
        performance_report c w =
          (Normal Undefined, w,
           [Performance_getEntriesByType ''navigation'',
            Console_log Msg_performance_metrics,
            Console_log (Msg_DOMContentLoaded
              (domContentLoadedEventEnd e - domContentLoadedEventStart e)),
            Console_log (Msg_Load_Complete (loadEventEnd e - loadEventStart e)),
            Console_log (Msg_DNS_Lookup (domainLookupEnd e - domainLookupStart e)),
            Console_log (Msg_TCP_Connect (connectEnd e - connectStart e))])) \<and>
     (filter (returned (App_mount ''#app'')) (events_of (main c isDev w')) \<noteq> [] \<longrightarrow>
        prefix (events_of (performance_report c w))
          (events_after is_mount (events_of (main c isDev w')))) \<and>
     (filter (returned (App_mount ''#app'')) (events_of (main c isDev w')) = [] \<longrightarrow>
        filter is_perf_read (events_of (main c isDev w')) = []) \<and>
     length (filter is_perf_read (events_of (main c isDev w'))) \<le> 1"
proof -
  have none: "performance_report c w =
      (Normal Undefined, w, [Performance_getEntriesByType ''navigation''])"
    if "navigation_entries c = []"
    using that by (simp add: performance_report_run)
  have some: "performance_report c w =
      (Normal Undefined, w,
       [Performance_getEntriesByType ''navigation'',
        Console_log Msg_performance_metrics,
        Console_log (Msg_DOMContentLoaded
          (domContentLoadedEventEnd e - domContentLoadedEventStart e)),
        Console_log (Msg_Load_Complete (loadEventEnd e - loadEventStart e)),
        Console_log (Msg_DNS_Lookup (domainLookupEnd e - domainLookupStart e)),
        Console_log (Msg_TCP_Connect (connectEnd e - connectStart e))])"
    if "navigation_entries c = e # es"
    using that by (simp add: performance_report_run)
  have ev: "events_of (performance_report c w) =
      Performance_getEntriesByType ''navigation'' #
      (case navigation_entries c of
         [] \<Rightarrow> []
       | e # es \<Rightarrow>
          [Console_log Msg_performance_metrics,
           Console_log (Msg_DOMContentLoaded
             (domContentLoadedEventEnd e - domContentLoadedEventStart e)),
           Console_log (Msg_Load_Complete (loadEventEnd e - loadEventStart e)),
           Console_log (Msg_DNS_Lookup (domainLookupEnd e - domainLookupStart e)),
           Console_log (Msg_TCP_Connect (connectEnd e - connectStart e))])"
    by (simp add: performance_report_run events_of_def)
  from none some main_report_after_mount [where c = c and isDev = isDev and w = w']
  show ?thesis
    unfolding ev by simp
qed

text \<open>The sample page with the sample entry: the four durations are 20, 5, 3 and 27; and
  the sample page without an entry.\<close>

theorem performance_report_metrics_witness:
  "navigation_entries (sample_env [] [] [sample_entry]) = sample_entry # [] \<and>
   performance_report (sample_env [] [] [sample_entry]) (sample_page True) =
     (Normal Undefined, sample_page True,
      [Performance_getEntriesByType ''navigation'',
       Console_log Msg_performance_metrics,
       Console_log (Msg_DOMContentLoaded 20),
       Console_log (Msg_Load_Complete 5),
       Console_log (Msg_DNS_Lookup 3),
       Console_log (Msg_TCP_Connect 27)]) \<and>
   navigation_entries (sample_env [] [] []) = [] \<and>
   performance_report (sample_env [] [] []) (sample_page True) =
     (Normal Undefined, sample_page True, [Performance_getEntriesByType ''navigation'']) \<and>
   filter (returned (App_mount ''#app''))
     (events_of (main (sample_env [] [] []) False (sample_page False))) \<noteq> [] \<and>
   events_after is_mount (events_of (main (sample_env [] [] []) False (sample_page False))) =
     [Performance_getEntriesByType ''navigation'', Assign_errorHandler] \<and>
   filter (returned (App_mount ''#app''))
     (events_of (main (sample_env [(App_mount ''#app'', Throws (Thrown ''no root''))] [] [])
        False (sample_page False))) = [] \<and>
   filter is_perf_read
     (events_of (main (sample_env [(App_mount ''#app'', Throws (Thrown ''no root''))] [] [])
        False (sample_page False))) = []"
proof -
  have e: "navigation_entries (sample_env [] [] [sample_entry]) = sample_entry # []"
    by (simp add: sample_env_def)
  have n: "navigation_entries (sample_env [] [] []) = []"
    by (simp add: sample_env_def)
  have m: "filter (returned (App_mount ''#app''))
      (events_of (main (sample_env [] [] []) False (sample_page False))) \<noteq> []"
    by (simp add: sample_main_prod events_of_def)
  have a: "events_after is_mount
      (events_of (main (sample_env [] [] []) False (sample_page False))) =
      [Performance_getEntriesByType ''navigation'', Assign_errorHandler]"
    by (simp add: sample_main_prod events_of_def events_after_def)
  have t: "filter (returned (App_mount ''#app''))
      (events_of (main (sample_env [(App_mount ''#app'', Throws (Thrown ''no root''))] [] [])
         False (sample_page False))) = []"
    by (simp add: eval_defs main_eval_defs events_of_def)
  from e n m a t
    performance_report_metrics [where c = "sample_env [] [] [sample_entry]"
      and e = sample_entry and es = "[]" and w = "sample_page True" and isDev = False
      and w' = "sample_page False"]
    performance_report_metrics [where c = "sample_env [] [] []"
      and e = sample_entry and es = "[]" and w = "sample_page True" and isDev = False
      and w' = "sample_page False"]
    performance_report_metrics [where
      c = "sample_env [(App_mount ''#app'', Throws (Thrown ''no root''))] [] []"
      and e = sample_entry and es = "[]" and w = "sample_page True" and isDev = False
      and w' = "sample_page False"]
  show ?thesis by (simp add: sample_entry_def)
qed

text \<open>
  Claim C7. In production mode \<open>memoryMonitor.startMonitoring\<close> and
  \<open>componentPreloader.preloadComponent\<close> are never invoked.

  Whatever the collaborators do, no run of the module body in production mode and no run of
  the unload handler, in either mode, contains such a call.
\<close>

theorem no_dev_monitoring_in_production:
  fixes c :: "('s, 'n::minus) environment"
  shows
    "filter dev_monitoring_call (events_of (main c False w)) = [] \<and>
     filter dev_monitoring_call (events_of (unload_handler c isDev w')) = []"
  using main_no_dev_monitoring [where c = c and w = w]
    unload_handler_no_dev_monitoring [where c = c and isDev = isDev and w = w']
  by simp

text \<open>The sample page: a run in production mode has no such call; a run in development
  mode has both.\<close>

theorem no_dev_monitoring_in_production_witness:
  "filter dev_monitoring_call
     (events_of (main (sample_env [] [] []) False (sample_page False))) = [] \<and>
   filter dev_monitoring_call
     (events_of (main (sample_env [] [] [sample_entry]) True (sample_page False))) =
     [Call (MemoryMonitor_startMonitoring 15000) (Returns Undefined),
      Call (ComponentPreloader_preloadComponent ''HomeView'')
        (Returns (Promise (Fulfils Undefined)))]"
  using no_dev_monitoring_in_production
    [of "sample_env [] [] []" "sample_page False" True "sample_page False"]
  by (simp add: sample_main_dev events_of_def)

text \<open>
  Claim C8. At startup \<open>memoryLeakDetector.startMonitoring\<close> is called exactly once, with
  15000 milliseconds in development mode and with 30000 milliseconds in production mode.

  No run of the module body calls \<open>startMonitoring\<close> of the leak detector twice or with
  another interval. The call stands right after \<open>storeManager.initialize()\<close> (lines 29 to
  33): a run in which that call has returned contains exactly one call of
  \<open>startMonitoring\<close>, with the interval of the mode; a run that has stopped before
  contains none. In particular a run that completes contains exactly one.
\<close>

theorem leak_detector_started_once:
  fixes c :: "('s, 'n::minus) environment"
  shows
    "prefix (leak_detector_intervals (events_of (main c isDev w)))
       [if isDev then 15000 else 30000] \<and>
     (filter (returned StoreManager_initialize) (events_of (main c isDev w)) \<noteq> [] \<longrightarrow>
        leak_detector_intervals (events_of (main c isDev w)) =
          [if isDev then 15000 else 30000]) \<and>
     (filter (returned StoreManager_initialize) (events_of (main c isDev w)) = [] \<longrightarrow>
        leak_detector_intervals (events_of (main c isDev w)) = []) \<and>
     (completion_of (main c isDev w) = Normal Undefined \<longrightarrow>
        leak_detector_intervals (events_of (main c isDev w)) =
          [if isDev then 15000 else 30000])"
  using main_leak_detector [where c = c and isDev = isDev and w = w]
  by simp

text \<open>The sample page in development mode and in production mode, and a run in which
  \<open>createApp\<close> throws.\<close>

theorem leak_detector_started_once_witness:
  "filter (returned StoreManager_initialize)
     (events_of (main (sample_env [] [] [sample_entry]) True (sample_page False))) \<noteq> [] \<and>
   completion_of (main (sample_env [] [] [sample_entry]) True (sample_page False)) =
     Normal Undefined \<and>
   leak_detector_intervals
     (events_of (main (sample_env [] [] [sample_entry]) True (sample_page False))) = [15000] \<and>
   completion_of (main (sample_env [] [] []) False (sample_page False)) = Normal Undefined \<and>
   leak_detector_intervals
     (events_of (main (sample_env [] [] []) False (sample_page False))) = [30000] \<and>
   filter (returned StoreManager_initialize)
     (events_of (main (sample_env [(CreateApp, Throws (Thrown ''no app''))] [] []) True
        (sample_page False))) = [] \<and>
   leak_detector_intervals
     (events_of (main (sample_env [(CreateApp, Throws (Thrown ''no app''))] [] []) True
        (sample_page False))) = []"
proof -
  have d: "completion_of (main (sample_env [] [] [sample_entry]) True (sample_page False)) =
      Normal Undefined"
    by (simp add: sample_main_dev completion_of_def)
  have p: "completion_of (main (sample_env [] [] []) False (sample_page False)) =
      Normal Undefined"
    by (simp add: sample_main_prod completion_of_def)
  have t: "filter (returned StoreManager_initialize)
     (events_of (main (sample_env [(CreateApp, Throws (Thrown ''no app''))] [] []) True
        (sample_page False))) = []"
    by (simp add: eval_defs main_eval_defs events_of_def)
  have i: "filter (returned StoreManager_initialize)
     (events_of (main (sample_env [] [] [sample_entry]) True (sample_page False))) \<noteq> []"
    by (simp add: sample_main_dev events_of_def)
  from d p t i
    leak_detector_started_once [of "sample_env [] [] [sample_entry]" True "sample_page False"]
    leak_detector_started_once [of "sample_env [] [] []" False "sample_page False"]
    leak_detector_started_once [of "sample_env [(CreateApp, Throws (Thrown ''no app''))] [] []"
      True "sample_page False"]
  show ?thesis by simp
qed

text \<open>
  Claim C10. In development mode a rejection of the promise that
  \<open>componentPreloader.preloadComponent('HomeView')\<close> returns is caught and logged to the
  console; it does not propagate and does not abort the remaining startup steps (the mount,
  the performance report, the installation of the error handler).

  Take a run in development mode in which the call returned a promise that rejects with
  \<open>e\<close>. The reaction registered by \<open>.catch(console.error)\<close> logs \<open>e\<close> when the reactions
  run; the promise that \<open>.catch\<close> returns fulfils, so the rejection is handled; and the
  statements after line 95 run on: the seven \<open>console.log\<close> calls of lines 98 to 104 follow
  the call at once. When nothing in the run fails, the run then mounts the application,
  reads the navigation entries, assigns the error handler and completes normally.
\<close>

theorem preload_rejection_is_caught:
  fixes c :: "('s, 'n::minus) environment"
  assumes rejected:
      "Call (ComponentPreloader_preloadComponent ''HomeView'') (Returns (Promise (Rejects e)))
         \<in> set (events_of (main c True w))"
  shows
    "(run_reactions (reactions (world_of (main c True w))) :: 'n event list) =
       run_reactions (reactions w) @ [Console_error None e] \<and>
     completion_of (promise_catch c (Promise (Rejects e)) Console_error_callback w) =
       Normal (Promise (Fulfils Undefined)) \<and>
     prefix
       [Console_log Msg_tools_status,
        Console_log Msg_status_leak_detection,
        Console_log Msg_status_memory_monitor,
        Console_log Msg_status_preloader,
        Console_log Msg_status_bundle_analyzer,
        Console_log Msg_status_code_splitting,
        Console_log Msg_status_event_listeners]
       (events_after is_preload (events_of (main c True w))) \<and>
     (filter failed (events_of (main c True w)) = [] \<longrightarrow>
        completion_of (main c True w) = Normal Undefined \<and>
        Invoke (App_mount ''#app'') \<in>
          set (invocations (events_after is_preload (events_of (main c True w)))) \<and>
        Performance_getEntriesByType ''navigation'' \<in>
          set (events_after is_preload (events_of (main c True w))) \<and>
        Assign_errorHandler \<in> set (events_after is_preload (events_of (main c True w))))"
proof -
  have "completion_of (promise_catch c (Promise (Rejects e)) Console_error_callback w) =
      Normal (Promise (Fulfils Undefined))"
    by (simp add: promise_catch_def completion_of_def)
  with main_preload_rejected [where c = c and w = w and e = e] rejected
  show ?thesis by simp
qed

text \<open>The sample page in development mode, where the promise of \<open>preloadComponent\<close>
  rejects.\<close>

theorem preload_rejection_is_caught_witness:
  "Call (ComponentPreloader_preloadComponent ''HomeView'')
     (Returns (Promise (Rejects (Thrown ''chunk failed''))))
     \<in> set (events_of (main
         (sample_env [(ComponentPreloader_preloadComponent ''HomeView'',
            Returns (Promise (Rejects (Thrown ''chunk failed''))))] [] [])
         True (sample_page False))) \<and>
   filter failed (events_of (main
         (sample_env [(ComponentPreloader_preloadComponent ''HomeView'',
            Returns (Promise (Rejects (Thrown ''chunk failed''))))] [] [])
         True (sample_page False))) = [] \<and>
   (run_reactions (reactions (world_of (main
         (sample_env [(ComponentPreloader_preloadComponent ''HomeView'',
            Returns (Promise (Rejects (Thrown ''chunk failed''))))] [] [])
         True (sample_page False)))) :: int event list) =
     [Console_error None (Thrown ''chunk failed'')] \<and>
   completion_of (main
         (sample_env [(ComponentPreloader_preloadComponent ''HomeView'',
            Returns (Promise (Rejects (Thrown ''chunk failed''))))] [] [])
         True (sample_page False)) = Normal Undefined \<and>
   Invoke (App_mount ''#app'') \<in> set (invocations (events_after is_preload (events_of (main
         (sample_env [(ComponentPreloader_preloadComponent ''HomeView'',
            Returns (Promise (Rejects (Thrown ''chunk failed''))))] [] [])
         True (sample_page False)))))"
proof -
  let ?c = "sample_env [(ComponentPreloader_preloadComponent ''HomeView'',
            Returns (Promise (Rejects (Thrown ''chunk failed''))))] [] []
     :: (bool, int) environment"
  have ev: "events_of (main ?c True (sample_page False)) =
      [Call CreateApp (Returns sample_app),
       Call UsePinia (Returns Undefined),
       Call (App_use Router) (Returns Undefined),
       Call (App_use I18n) (Returns Undefined),
       Call StoreManager_initialize (Returns Undefined),
       Call (MemoryLeakDetector_startMonitoring 15000) (Returns Undefined),
       AddEventListener ''beforeunload'',
       Assign_window ''debugMemory'',
       Console_log Msg_dev_tools_enabled,
       Call (MemoryMonitor_startMonitoring 15000) (Returns Undefined),
       Call (ComponentPreloader_preloadComponent ''HomeView'')
         (Returns (Promise (Rejects (Thrown ''chunk failed'')))),
       Console_log Msg_tools_status,
       Console_log Msg_status_leak_detection,
       Console_log Msg_status_memory_monitor,
       Console_log Msg_status_preloader,
       Console_log Msg_status_bundle_analyzer,
       Console_log Msg_status_code_splitting,
       Console_log Msg_status_event_listeners,
       Call (App_mount ''#app'') (Returns Undefined),
       Performance_getEntriesByType ''navigation'',
       Assign_errorHandler,
       Assign_globalProperties_performance,
       Object_defineProperty ''__PERF_TOOLS__'',
       Console_log Msg_perf_tools_mounted]"
    by (simp add: eval_defs main_eval_defs events_of_def)
  have r: "Call (ComponentPreloader_preloadComponent ''HomeView'')
      (Returns (Promise (Rejects (Thrown ''chunk failed''))))
      \<in> set (events_of (main ?c True (sample_page False)))"
    by (simp add: ev)
  have n: "filter failed (events_of (main ?c True (sample_page False))) = []"
    by (simp add: ev)
  have e: "(run_reactions (reactions (sample_page False)) :: int event list) = []"
    by (simp add: sample_page_def run_reactions_def)
  from preload_rejection_is_caught [OF r] r n e show ?thesis
    by simp
qed

end
